theory Spec2Isabelle
  imports Main "HOL-Library.Signed_Division" "HOL-Library.Word"
begin

section \<open>The fallible result type (include/expected.hpp)\<close>

text \<open>
  The C++ has three ways of leaving a call: it returns, it throws, or it runs into
  undefined behaviour (a read of the inactive union member, a null pointer handed to
  \<^verbatim>\<open>std::string\<close> or to \<^verbatim>\<open>std::rethrow_exception\<close>). All three are values here.

  An exception object is its dynamic type (what \<^verbatim>\<open>typeid\<close> reports) and its
  \<^verbatim>\<open>what()\<close> text. \<open>Pointer_to\<close> is there because the socket-option setters
  \<^verbatim>\<open>throw new std::runtime_error(...)\<close>, which throws a pointer.
  A \<^verbatim>\<open>std::exception_ptr\<close> is nullable: \<open>None\<close> is \<^verbatim>\<open>nullptr\<close>.
\<close>

datatype exn_type = Std_exception | Runtime_error | Logic_error | Invalid_argument
  | Pointer_to exn_type

datatype exn = Exn exn_type string

fun typeid :: "exn \<Rightarrow> exn_type" where
  "typeid (Exn ty msg) = ty"

fun what :: "exn \<Rightarrow> string" where
  "what (Exn ty msg) = msg"

definition runtime_error :: "string \<Rightarrow> exn" where
  "runtime_error msg = Exn Runtime_error msg"

definition logic_error :: "string \<Rightarrow> exn" where
  "logic_error msg = Exn Logic_error msg"

definition invalid_argument :: "string \<Rightarrow> exn" where
  "invalid_argument msg = Exn Invalid_argument msg"

type_synonym exception_ptr = "exn option"

datatype 'a outcome = Returns 'a | Throws exn | Undefined_behaviour

text \<open>
  \<^verbatim>\<open>Expected<T>\<close> is a \<^verbatim>\<open>bool __erred\<close> beside an anonymous union of
  \<^verbatim>\<open>T __value\<close> and \<^verbatim>\<open>std::exception_ptr __exception\<close>. The union is modelled by
  the member that is alive in it; the flag is a separate field, as in the source, so
  that a flag that disagrees with the union is a state of the model.
\<close>

datatype 'a storage = Value 'a | Exception exception_ptr

record 'a Expected =
  erred_flag :: bool
  storage :: "'a storage"

text \<open>\<^verbatim>\<open>Expected(const T&)\<close> and \<^verbatim>\<open>Expected(T&&)\<close>.\<close>

definition Expected_value :: "'a \<Rightarrow> 'a Expected" where
  "Expected_value rhs = \<lparr>erred_flag = False, storage = Value rhs\<rparr>"

text \<open>\<^verbatim>\<open>Expected(const std::exception_ptr&)\<close> and its rvalue form.\<close>

definition Expected_exception :: "exception_ptr \<Rightarrow> 'a Expected" where
  "Expected_exception rhs = \<lparr>erred_flag = True, storage = Exception rhs\<rparr>"

text \<open>
  \<^verbatim>\<open>unexpected<E>(const E& e)\<close>: the first argument is the static type \<open>E\<close>, the
  second the object, whose dynamic type may be a class derived from \<open>E\<close>.
\<close>

definition unexpected :: "exn_type \<Rightarrow> exn \<Rightarrow> 'a Expected outcome" where
  "unexpected E e =
     (if typeid e \<noteq> E
      then Throws (invalid_argument ''Expected::unexpected: slicing detected'')
      else Returns (Expected_exception (Some e)))"

text \<open>
  Every call of \<^verbatim>\<open>unexpected\<close> in cppsocket.cpp passes a temporary of the very
  class it names, so the slicing check passes there; \<open>failed\<close> is that call.
\<close>

definition failed :: "exn \<Rightarrow> 'a Expected" where
  "failed e = Expected_exception (Some e)"

definition exception :: "'a Expected \<Rightarrow> exception_ptr outcome" where
  "exception x =
     (if \<not> erred_flag x then Returns None
      else case storage x of
             Exception p \<Rightarrow> Returns p
           | Value v \<Rightarrow> Undefined_behaviour)"

definition erred :: "'a Expected \<Rightarrow> bool" where
  "erred x = erred_flag x"

text \<open>
  \<^verbatim>\<open>get()\<close>: \<^verbatim>\<open>if (__erred) std::rethrow_exception(__exception); return __value;\<close>
  Rethrowing a null pointer and reading the member that is not alive are undefined.
\<close>

definition get :: "'a Expected \<Rightarrow> 'a outcome" where
  "get x =
     (if erred_flag x
      then (case storage x of
              Exception (Some e) \<Rightarrow> Throws e
            | Exception None \<Rightarrow> Undefined_behaviour
            | Value v \<Rightarrow> Undefined_behaviour)
      else (case storage x of
              Value v \<Rightarrow> Returns v
            | Exception p \<Rightarrow> Undefined_behaviour))"


text \<open>
  The move constructor: the new object, and \<^verbatim>\<open>rhs\<close> after the call. What a move
  leaves behind in a \<^verbatim>\<open>T\<close> and in a \<^verbatim>\<open>std::exception_ptr\<close> is up to those types
  (\<open>left_value\<close>, \<open>left_ptr\<close>); libstdc++ leaves a null pointer.
\<close>

definition Expected_move ::
  "('a \<Rightarrow> 'a) \<Rightarrow> (exception_ptr \<Rightarrow> exception_ptr) \<Rightarrow> 'a Expected
     \<Rightarrow> ('a Expected \<times> 'a Expected) outcome" where
  "Expected_move left_value left_ptr rhs =
     (if erred_flag rhs
      then (case storage rhs of
              Exception p \<Rightarrow>
                Returns (\<lparr>erred_flag = erred_flag rhs, storage = Exception p\<rparr>,
                         rhs\<lparr>storage := Exception (left_ptr p)\<rparr>)
            | Value v \<Rightarrow> Undefined_behaviour)
      else (case storage rhs of
              Value v \<Rightarrow>
                Returns (\<lparr>erred_flag = erred_flag rhs, storage = Value v\<rparr>,
                         rhs\<lparr>storage := Value (left_value v)\<rparr>)
            | Exception p \<Rightarrow> Undefined_behaviour))"

text \<open>
  \<^verbatim>\<open>swap(Expected& rhs)\<close>. Its body has four branches, chosen by the two flags:
  \<^verbatim>\<open>swap(__value, rhs.__value);\<close> when both hold values; the three statements that
  move \<^verbatim>\<open>rhs.__exception\<close> and \<^verbatim>\<open>__value\<close> across and swap the flags when only
  \<^verbatim>\<open>rhs\<close> holds an error; \<^verbatim>\<open>rhs.wap(*this);\<close> when only \<^verbatim>\<open>*this\<close> holds an
  error; \<^verbatim>\<open>__exception.swap(rhs.swap);\<close> when both do. The third names a member that
  does not exist and the fourth passes the member function \<^verbatim>\<open>swap\<close> where an
  \<^verbatim>\<open>exception_ptr\<close> is required: neither is a well-formed statement.
\<close>

definition swap_branch_well_formed :: "bool \<Rightarrow> bool \<Rightarrow> bool" where
  "swap_branch_well_formed this_erred rhs_erred =
     (if \<not> this_erred then (if \<not> rhs_erred then True else True)
      else (if \<not> rhs_erred then False else False))"

text \<open>
  What the statements of the branch chosen by the flags do to the pair
  (\<^verbatim>\<open>*this\<close>, \<^verbatim>\<open>rhs\<close>); \<open>None\<close> where the branch has no well-formed statement.
\<close>

definition swap_branch ::
  "'a Expected \<Rightarrow> 'a Expected \<Rightarrow> ('a Expected \<times> 'a Expected) outcome option" where
  "swap_branch this rhs =
     (if \<not> erred_flag this then
        (if \<not> erred_flag rhs then
           (case (storage this, storage rhs) of
              (Value a, Value b) \<Rightarrow>
                Some (Returns (this\<lparr>storage := Value b\<rparr>, rhs\<lparr>storage := Value a\<rparr>))
            | _ \<Rightarrow> Some Undefined_behaviour)
         else
           (case (storage this, storage rhs) of
              (Value a, Exception tmp) \<Rightarrow>
                Some (Returns (this\<lparr>erred_flag := erred_flag rhs, storage := Exception tmp\<rparr>,
                               rhs\<lparr>erred_flag := erred_flag this, storage := Value a\<rparr>))
            | _ \<Rightarrow> Some Undefined_behaviour))
      else
        (if \<not> erred_flag rhs then None else None))"

text \<open>
  A call of \<^verbatim>\<open>swap\<close>. A member function of a class template is instantiated as a
  whole, so the call compiles only if every branch of the body does, whatever the two
  objects hold; \<open>None\<close> stands for a call that does not compile.
\<close>

definition swap ::
  "'a Expected \<Rightarrow> 'a Expected \<Rightarrow> ('a Expected \<times> 'a Expected) outcome option" where
  "swap this rhs =
     (if swap_branch_well_formed False False \<and> swap_branch_well_formed False True \<and>
         swap_branch_well_formed True False \<and> swap_branch_well_formed True True
      then swap_branch this rhs
      else None)"

fun outcome_bind :: "'a outcome \<Rightarrow> ('a \<Rightarrow> 'b outcome) \<Rightarrow> 'b outcome" where
  "outcome_bind (Returns v) f = f v"
| "outcome_bind (Throws e) f = Throws e"
| "outcome_bind Undefined_behaviour f = Undefined_behaviour"

section \<open>The operating system as cppsocket.cpp sees it\<close>

text \<open>
  Sockets are \<^verbatim>\<open>int\<close> descriptors. A \<^verbatim>\<open>sockaddr\<close> is its family, its port (the
  number, not its byte order) and its IP; a pointer to one is the address it points to
  together with what lies there, because \<^verbatim>\<open>netaddr\<close> reads both.
\<close>

datatype family = AF_INET | AF_INET6 | AF_other

datatype socktype = SOCK_STREAM | SOCK_DGRAM

type_synonym in_addr = nat

record sockaddr =
  sa_family :: family
  sin_port :: nat
  sin_addr :: in_addr

record sockaddr_ptr =
  ptr_address :: nat
  pointee :: sockaddr

record addrinfo =
  ai_family :: family
  ai_socktype :: socktype
  ai_protocol :: int
  ai_addr :: sockaddr_ptr

datatype sockopt = SO_RCVTIMEO int int | SO_SNDTIMEO int int | SO_REUSEADDR int
  | TCP_NODELAY int

datatype poll_events = POLLIN | POLLOUT

text \<open>
  What the kernel and the C library answer. Each field is the return value of the call
  of that name for the arguments the code passes. \<open>sys_poll\<close> gives \<^verbatim>\<open>poll\<close>'s
  result and whether \<^verbatim>\<open>revents\<close> has \<^verbatim>\<open>POLLERR\<close>. The calls that fill a local
  \<^verbatim>\<open>sockaddr_storage sas\<close> give the pointer \<^verbatim>\<open>&sas\<close> the code goes on with: where
  the local lives and what the kernel wrote there. \<open>strerror_errno\<close> is
  \<^verbatim>\<open>std::strerror(errno)\<close>.
\<close>

record os =
  sys_socket :: "family \<Rightarrow> socktype \<Rightarrow> int \<Rightarrow> int"
  sys_connect :: "int \<Rightarrow> sockaddr_ptr \<Rightarrow> int"
  sys_bind :: "int \<Rightarrow> sockaddr_ptr \<Rightarrow> int"
  sys_listen :: "int \<Rightarrow> int \<Rightarrow> int"
  sys_setsockopt :: "int \<Rightarrow> sockopt \<Rightarrow> int"
  sys_poll :: "int \<Rightarrow> poll_events \<Rightarrow> int \<Rightarrow> int \<times> bool"
  sys_read :: "int \<Rightarrow> nat \<Rightarrow> int"
  sys_write :: "int \<Rightarrow> 8 word list \<Rightarrow> int"
  sys_recvfrom :: "int \<Rightarrow> nat \<Rightarrow> int \<times> sockaddr_ptr"
  sys_sendto :: "int \<Rightarrow> 8 word list \<Rightarrow> sockaddr_ptr \<Rightarrow> int"
  sys_accept :: "int \<Rightarrow> int \<times> sockaddr_ptr"
  sys_getsockname :: "int \<Rightarrow> int \<times> sockaddr_ptr"
  sys_getaddrinfo :: "string option \<Rightarrow> string \<Rightarrow> socktype \<Rightarrow> int \<times> addrinfo"
  sys_gai_strerror :: "int \<Rightarrow> string"
  sys_inet_ntop :: "family \<Rightarrow> in_addr \<Rightarrow> string option"
  strerror_errno :: string

text \<open>
  What a call does, in order: the system calls it issues, and, for the UDP peer cache,
  the mutex operations and the accesses to the map.
\<close>

datatype event =
    Sys_socket family socktype int
  | Sys_connect int sockaddr_ptr
  | Sys_bind int sockaddr_ptr
  | Sys_listen int int
  | Sys_setsockopt int sockopt
  | Sys_close int
  | Sys_poll int poll_events int
  | Sys_read int nat
  | Sys_write int nat
  | Sys_recvfrom int nat
  | Sys_sendto int nat sockaddr_ptr
  | Sys_accept int
  | Sys_getsockname int
  | Sys_getaddrinfo "string option" string socktype
  | Mutex_lock
  | Mutex_unlock
  | Remotes_find string
  | Remotes_store string

section \<open>Strings\<close>

text \<open>
  \<^verbatim>\<open>std::string::find\<close>: the first position at which the delimiter occurs, or
  \<^verbatim>\<open>npos\<close> (\<open>None\<close>). The source keeps the position in an \<^verbatim>\<open>int\<close> and compares it
  with \<^verbatim>\<open>npos\<close>, which is the same test for every string shorter than 2^31.
\<close>

fun string_find :: "string \<Rightarrow> string \<Rightarrow> nat option" where
  "string_find [] d = (if d = [] then Some 0 else None)"
| "string_find (c # cs) d =
     (if take (length d) (c # cs) = d then Some 0
      else map_option Suc (string_find cs d))"

text \<open>A \<^verbatim>\<open>const char*\<close> read as a C string ends at the first NUL.\<close>

definition c_str :: "string \<Rightarrow> string" where
  "c_str s = takeWhile (\<lambda>c. c \<noteq> CHR 0x00) s"

definition quoted :: "string \<Rightarrow> string" where
  "quoted s = CHR 0x22 # s @ [CHR 0x22]"

definition digit :: "nat \<Rightarrow> char" where
  "digit n = ''0123456789'' ! n"

text \<open>\<^verbatim>\<open>std::to_string\<close> of a number that is not negative.\<close>

function to_string :: "nat \<Rightarrow> string" where
  "to_string n = (if n < 10 then [digit n] else to_string (n div 10) @ [digit (n mod 10)])"
  by pat_completeness auto
termination
  by (relation "measure id") auto

declare to_string.simps [simp del]

section \<open>Address resolution (src/cppsocket.cpp, Snipper and resolve)\<close>

record Snipper =
  snipper_str :: string
  snipper_snipped :: "string list"

definition Snipper_new :: "string \<Rightarrow> nat \<Rightarrow> Snipper" where
  "Snipper_new s snips = \<lparr>snipper_str = s, snipper_snipped = []\<rparr>"

definition remaining_or :: "Snipper \<Rightarrow> string \<Rightarrow> string" where
  "remaining_or sn c = (if snipper_str sn \<noteq> [] then c_str (snipper_str sn) else c)"

text \<open>
  \<^verbatim>\<open>operator()\<close>: the snipped part as a C string, or \<open>None\<close> for \<^verbatim>\<open>NULL\<close>, and the
  snipper after the call. When the delimiter is not found nothing is consumed.
\<close>

definition snip :: "Snipper \<Rightarrow> string \<Rightarrow> string option \<times> Snipper" where
  "snip sn delimiter =
     (case string_find (snipper_str sn) delimiter of
        None \<Rightarrow> (None, sn)
      | Some pos \<Rightarrow>
          (Some (c_str (take pos (snipper_str sn))),
           \<lparr>snipper_str = drop (pos + length delimiter) (snipper_str sn),
            snipper_snipped = snipper_snipped sn @ [take pos (snipper_str sn)]\<rparr>))"

text \<open>
  The second half of \<^verbatim>\<open>resolve\<close>, once \<^verbatim>\<open>hints.ai_socktype\<close> is set: the call of
  \<^verbatim>\<open>getaddrinfo\<close> and the two returns after it.
\<close>

definition resolve_getaddrinfo ::
  "os \<Rightarrow> string \<Rightarrow> string option \<Rightarrow> string \<Rightarrow> socktype \<Rightarrow> addrinfo Expected outcome \<times> event list" where
  "resolve_getaddrinfo os address hostname port socktype =
     (let (status, resolved) = sys_getaddrinfo os hostname port socktype
      in (Returns
            (if status \<noteq> 0
             then failed (runtime_error (''resolve: trying to resolve '' @ quoted address
                    @ '' but failed - '' @ sys_gai_strerror os status))
             else Expected_value resolved),
          [Sys_getaddrinfo hostname port socktype]))"

text \<open>
  \<^verbatim>\<open>resolve\<close>. \<^verbatim>\<open>std::string(protocol)\<close> with \<^verbatim>\<open>protocol == NULL\<close> is undefined
  behaviour; it is the first thing done with \<^verbatim>\<open>protocol\<close>.
\<close>

definition resolve :: "os \<Rightarrow> string \<Rightarrow> addrinfo Expected outcome \<times> event list" where
  "resolve os address =
     (let snip0 = Snipper_new address 3;
          (protocol, snip1) = snip snip0 ''://'';
          (hostname, snip2) = snip snip1 '':'';
          port = remaining_or snip2 ''80''
      in case protocol of
           None \<Rightarrow> (Undefined_behaviour, [])
         | Some proto \<Rightarrow>
             if proto = ''tcp'' then resolve_getaddrinfo os address hostname port SOCK_STREAM
             else if proto = ''udp'' then resolve_getaddrinfo os address hostname port SOCK_DGRAM
             else (Returns (failed (runtime_error (''resolve: unable to resolve ''
                     @ quoted address @ '' - Unsupported protocol '' @ quoted proto))), []))"

section \<open>Printing a socket address (netaddr)\<close>

text \<open>
  \<^verbatim>\<open>netaddr(const struct sockaddr* sa)\<close> takes the port through
  \<^verbatim>\<open>(struct sockaddr_in *)&sa\<close>: the address of the parameter \<^verbatim>\<open>sa\<close>, not the
  pointer it holds. \<^verbatim>\<open>sin_port\<close> and \<^verbatim>\<open>sin6_port\<close> are the two bytes at offset 2
  of what the cast points at, so the bytes read are bytes 2 and 3 of the pointer value
  itself, and \<^verbatim>\<open>ntohs\<close> takes the first of them as the high byte. The model reads
  them on a little-endian machine with 64-bit pointers (byte \<open>k\<close> of the pointer \<open>p\<close>
  is \<open>p div 2 ^ (8 * k) mod 256\<close>), which is what the access does when it is compiled
  as written; the language itself leaves a read of a pointer through a
  \<^verbatim>\<open>sockaddr_in\<close> lvalue undefined. The IP is taken through \<^verbatim>\<open>sa\<close> itself, so
  the \<open>sin_port\<close> of the address plays no part in the result.
\<close>

definition port_behind_pointer :: "nat \<Rightarrow> nat" where
  "port_behind_pointer p = (p div 2 ^ 16 mod 256) * 256 + p div 2 ^ 24 mod 256"

definition netaddr :: "os \<Rightarrow> sockaddr_ptr \<Rightarrow> string Expected" where
  "netaddr os sa =
     (case (if sa_family (pointee sa) = AF_INET
              then Some (port_behind_pointer (ptr_address sa), sin_addr (pointee sa))
            else if sa_family (pointee sa) = AF_INET6
              then Some (port_behind_pointer (ptr_address sa), sin_addr (pointee sa))
            else None) of
        None \<Rightarrow> failed (runtime_error ''netaddr: unsupported family'')
      | Some (port, saina) \<Rightarrow>
          (case sys_inet_ntop os (sa_family (pointee sa)) saina of
             None \<Rightarrow> failed (runtime_error
                 (''netaddr: unable to convert IP to human-readable form - '' @ strerror_errno os))
           | Some str \<Rightarrow> Expected_value (str @ '':'' @ to_string port)))"

text \<open>\<^verbatim>\<open>netaddr(int socket)\<close>.\<close>

definition netaddr_socket :: "os \<Rightarrow> int \<Rightarrow> string Expected \<times> event list" where
  "netaddr_socket os sock =
     (let (r, sas) = sys_getsockname os sock
      in if r = -1
         then (failed (runtime_error
                 (''netaddr: unable to aquire localaddr - '' @ strerror_errno os)),
               [Sys_getsockname sock])
         else (netaddr os sas, [Sys_getsockname sock]))"

section \<open>Deadlines handed to poll\<close>

text \<open>
  A deadline is a \<^verbatim>\<open>std::chrono::milliseconds\<close>; its \<^verbatim>\<open>count()\<close> is a signed
  64-bit number, modelled by the \<open>int\<close> that the calls below take as \<open>t\<close>.
  \<^verbatim>\<open>poll\<close> takes an \<^verbatim>\<open>int\<close>, so the count is narrowed to 32 bits on the way:
  a count of 2^32 reaches \<^verbatim>\<open>poll\<close> as 0, one of 2^31 as a negative number.
\<close>

definition poll_timeout :: "int \<Rightarrow> int" where
  "poll_timeout t = (t + 2 ^ 31) mod 2 ^ 32 - 2 ^ 31"

section \<open>TCP connections\<close>

record TCPConnectionImpl =
  tcp_socket :: int
  tcp_local_addr :: string
  tcp_remote_addr :: string

text \<open>
  \<^verbatim>\<open>TCPConnectionImpl(const std::shared_ptr<addrinfo>& resolved)\<close>. The member
  initialiser of \<^verbatim>\<open>__remote_addr\<close> runs before the body, so \<^verbatim>\<open>netaddr\<close> is
  asked before the socket exists.
\<close>

definition TCPConnectionImpl_resolved ::
  "os \<Rightarrow> addrinfo \<Rightarrow> TCPConnectionImpl outcome \<times> event list" where
  "TCPConnectionImpl_resolved os resolved =
     (case get (netaddr os (ai_addr resolved)) of
        Throws e \<Rightarrow> (Throws e, [])
      | Undefined_behaviour \<Rightarrow> (Undefined_behaviour, [])
      | Returns remote \<Rightarrow>
          (let sock = sys_socket os (ai_family resolved) (ai_socktype resolved) (ai_protocol resolved);
               e1 = [Sys_socket (ai_family resolved) (ai_socktype resolved) (ai_protocol resolved)]
           in if sock = -1
              then (Throws (runtime_error
                      (''TCPConnection::TCPConnection: unable to acquire socket - '' @ strerror_errno os)),
                    e1)
              else if sys_connect os sock (ai_addr resolved) < 0
              then (Throws (runtime_error
                      (''TCPConnection::TCPConnection: unable to connect socket - '' @ strerror_errno os)),
                    e1 @ [Sys_connect sock (ai_addr resolved), Sys_close sock])
              else (let (local, e3) = netaddr_socket os sock
                    in (outcome_bind (get local)
                          (\<lambda>l. Returns \<lparr>tcp_socket = sock,
                                         tcp_local_addr = ''tcp://'' @ l,
                                         tcp_remote_addr = ''tcp://'' @ remote\<rparr>),
                        e1 @ [Sys_connect sock (ai_addr resolved)] @ e3))))"

text \<open>\<^verbatim>\<open>TCPConnectionImpl(int socket, const std::string& localaddr, const std::string& remote)\<close>.\<close>

definition TCPConnectionImpl_accepted :: "int \<Rightarrow> string \<Rightarrow> string \<Rightarrow> TCPConnectionImpl" where
  "TCPConnectionImpl_accepted sock localaddr remote =
     \<lparr>tcp_socket = sock,
      tcp_local_addr = ''tcp://'' @ localaddr,
      tcp_remote_addr = ''tcp://'' @ remote\<rparr>"

text \<open>\<^verbatim>\<open>~TCPConnectionImpl()\<close>.\<close>

definition TCPConnectionImpl_destroy :: "TCPConnectionImpl \<Rightarrow> event list" where
  "TCPConnectionImpl_destroy c = [Sys_close (tcp_socket c)]"

text \<open>
  The socket-option setters take microseconds; \<^verbatim>\<open>duration_cast<seconds>\<close> rounds
  towards zero. On failure they \<^verbatim>\<open>throw new std::runtime_error(...)\<close>: a pointer.
\<close>

definition TCPConnectionImpl_read_timeout ::
  "os \<Rightarrow> TCPConnectionImpl \<Rightarrow> int \<Rightarrow> unit outcome \<times> event list" where
  "TCPConnectionImpl_read_timeout os c t =
     (let s = t sdiv 1000000;
          tv = SO_RCVTIMEO s (t - s * 1000000)
      in if sys_setsockopt os (tcp_socket c) tv = -1
         then (Throws (Exn (Pointer_to Runtime_error)
                 (''TCPConnection::read_timeout: unable to set read timeout - '' @ strerror_errno os)),
               [Sys_setsockopt (tcp_socket c) tv])
         else (Returns (), [Sys_setsockopt (tcp_socket c) tv]))"

definition TCPConnectionImpl_write_timeout ::
  "os \<Rightarrow> TCPConnectionImpl \<Rightarrow> int \<Rightarrow> unit outcome \<times> event list" where
  "TCPConnectionImpl_write_timeout os c t =
     (let s = t sdiv 1000000;
          tv = SO_SNDTIMEO s (t - s * 1000000)
      in if sys_setsockopt os (tcp_socket c) tv = -1
         then (Throws (Exn (Pointer_to Runtime_error)
                 (''TCPConnection::read_timeout: unable to set write timeout - '' @ strerror_errno os)),
               [Sys_setsockopt (tcp_socket c) tv])
         else (Returns (), [Sys_setsockopt (tcp_socket c) tv]))"

definition TCPConnectionImpl_timeout ::
  "os \<Rightarrow> TCPConnectionImpl \<Rightarrow> int \<Rightarrow> unit outcome \<times> event list" where
  "TCPConnectionImpl_timeout os c t =
     (case TCPConnectionImpl_read_timeout os c t of
        (Returns u, e1) \<Rightarrow>
          (let (r, e2) = TCPConnectionImpl_write_timeout os c t in (r, e1 @ e2))
      | (r, e1) \<Rightarrow> (r, e1))"

definition TCPConnectionImpl_no_delay ::
  "os \<Rightarrow> TCPConnectionImpl \<Rightarrow> bool \<Rightarrow> unit outcome \<times> event list" where
  "TCPConnectionImpl_no_delay os c d =
     (let opt = TCP_NODELAY (if d then 1 else 0)
      in if sys_setsockopt os (tcp_socket c) opt = -1
         then (Throws (Exn (Pointer_to Runtime_error)
                 (''TCPConnection::no_delay: unable to set NODELAY - '' @ strerror_errno os)),
               [Sys_setsockopt (tcp_socket c) opt])
         else (Returns (), [Sys_setsockopt (tcp_socket c) opt]))"

text \<open>
  \<^verbatim>\<open>read(std::vector<uint8_t>& b, const std::chrono::milliseconds& t)\<close>. Only the
  length of the buffer matters to what is modelled: which calls are issued and what is
  returned.
\<close>

definition TCPConnectionImpl_read ::
  "os \<Rightarrow> TCPConnectionImpl \<Rightarrow> 8 word list \<Rightarrow> int \<Rightarrow> nat Expected \<times> event list" where
  "TCPConnectionImpl_read os c b t =
     (let (result, pollerr) = sys_poll os (tcp_socket c) POLLIN (poll_timeout t);
          e1 = [Sys_poll (tcp_socket c) POLLIN (poll_timeout t)]
      in if result = -1 \<or> pollerr
         then (failed (runtime_error
                 (''TCPConnection::read: failed to poll the socket - '' @ strerror_errno os)), e1)
         else if result = 0
         then (failed (logic_error ''TCPConnection::read: timeout whilst polling the socket''), e1)
         else (let s = sys_read os (tcp_socket c) (length b);
                   e2 = e1 @ [Sys_read (tcp_socket c) (length b)]
               in if s < 0
                  then (failed (runtime_error
                          (''TCPConnection::read: unable to read - '' @ strerror_errno os)), e2)
                  else (Expected_value (nat s), e2)))"

definition TCPConnectionImpl_read_blocking ::
  "os \<Rightarrow> TCPConnectionImpl \<Rightarrow> 8 word list \<Rightarrow> nat Expected \<times> event list" where
  "TCPConnectionImpl_read_blocking os c b = TCPConnectionImpl_read os c b (-1)"

definition TCPConnectionImpl_write ::
  "os \<Rightarrow> TCPConnectionImpl \<Rightarrow> 8 word list \<Rightarrow> int \<Rightarrow> nat Expected \<times> event list" where
  "TCPConnectionImpl_write os c b t =
     (let (result, pollerr) = sys_poll os (tcp_socket c) POLLOUT (poll_timeout t);
          e1 = [Sys_poll (tcp_socket c) POLLOUT (poll_timeout t)]
      in if result = -1 \<or> pollerr
         then (failed (runtime_error
                 (''TCPConnection::write: failed to poll the socket - '' @ strerror_errno os)), e1)
         else if result = 0
         then (failed (logic_error ''TCPConnection::write: timeout whilst polling the socket''), e1)
         else (let s = sys_write os (tcp_socket c) b;
                   e2 = e1 @ [Sys_write (tcp_socket c) (length b)]
               in if s < 0
                  then (failed (runtime_error
                          (''TCPConnection::write: unable to write - '' @ strerror_errno os)), e2)
                  else (Expected_value (nat s), e2)))"

definition TCPConnectionImpl_write_blocking ::
  "os \<Rightarrow> TCPConnectionImpl \<Rightarrow> 8 word list \<Rightarrow> nat Expected \<times> event list" where
  "TCPConnectionImpl_write_blocking os c b = TCPConnectionImpl_write os c b (-1)"

section \<open>The TCP listener\<close>

record TCPListenerImpl =
  lst_addr :: addrinfo
  lst_timeout :: int
  lst_socket :: int

definition kDefaultListenBacklog :: int where
  "kDefaultListenBacklog = 512"

definition TCPListenerImpl_new :: "os \<Rightarrow> addrinfo \<Rightarrow> TCPListenerImpl outcome \<times> event list" where
  "TCPListenerImpl_new os resolved =
     (let sock = sys_socket os (ai_family resolved) (ai_socktype resolved) (ai_protocol resolved);
          e1 = [Sys_socket (ai_family resolved) (ai_socktype resolved) (ai_protocol resolved)]
      in if sock = -1
         then (Throws (runtime_error
                 (''TCPListener::TCPListener: unable to acquire socket - '' @ strerror_errno os)), e1)
         else if sys_setsockopt os sock (SO_REUSEADDR 1) = -1
         then (Throws (runtime_error
                 (''TCPListener::TCPListener: unable to claim socket - '' @ strerror_errno os)),
               e1 @ [Sys_setsockopt sock (SO_REUSEADDR 1), Sys_close sock])
         else if sys_bind os sock (ai_addr resolved) = -1
         then (Throws (runtime_error
                 (''TCPListener::TCPListener: unable to bind socket - '' @ strerror_errno os)),
               e1 @ [Sys_setsockopt sock (SO_REUSEADDR 1), Sys_bind sock (ai_addr resolved),
                     Sys_close sock])
         else if sys_listen os sock kDefaultListenBacklog = -1
         then (Throws (runtime_error
                 (''TCPListener::TCPListener: unable to listen - '' @ strerror_errno os)),
               e1 @ [Sys_setsockopt sock (SO_REUSEADDR 1), Sys_bind sock (ai_addr resolved),
                     Sys_listen sock kDefaultListenBacklog, Sys_close sock])
         else (Returns \<lparr>lst_addr = resolved, lst_timeout = -1, lst_socket = sock\<rparr>,
               e1 @ [Sys_setsockopt sock (SO_REUSEADDR 1), Sys_bind sock (ai_addr resolved),
                     Sys_listen sock kDefaultListenBacklog]))"

text \<open>\<^verbatim>\<open>~TCPListenerImpl()\<close>.\<close>

definition TCPListenerImpl_destroy :: "TCPListenerImpl \<Rightarrow> event list" where
  "TCPListenerImpl_destroy l = [Sys_close (lst_socket l)]"

text \<open>
  \<^verbatim>\<open>accept(const std::chrono::milliseconds& t)\<close>. After \<^verbatim>\<open>poll\<close> the source tests
  \<^verbatim>\<open>result == -1 || pfd.revents & POLLERR\<close> and nothing else, then calls
  \<^verbatim>\<open>sys::accept\<close>.
\<close>

definition TCPListenerImpl_accept ::
  "os \<Rightarrow> TCPListenerImpl \<Rightarrow> int \<Rightarrow> TCPConnectionImpl Expected outcome \<times> event list" where
  "TCPListenerImpl_accept os l t =
     (let (result, pollerr) = sys_poll os (lst_socket l) POLLIN (poll_timeout t);
          e1 = [Sys_poll (lst_socket l) POLLIN (poll_timeout t)]
      in if result = -1 \<or> pollerr
         then (Returns (failed (runtime_error
                 (''TCPListener::accept: failed to poll the bound-socket - '' @ strerror_errno os))),
               e1)
         else (let (sock, sas) = sys_accept os (lst_socket l);
                   e2 = e1 @ [Sys_accept (lst_socket l)]
               in if sock = -1
                  then (Returns (failed (runtime_error
                          (''TCPListener::accept: failed to accept a new connection - ''
                           @ strerror_errno os))), e2)
                  else (let local_addr = netaddr os (ai_addr (lst_addr l))
                        in if erred local_addr
                           then (outcome_bind (exception local_addr)
                                   (\<lambda>p. Returns (Expected_exception p)), e2)
                           else (let remote_addr = netaddr os sas
                                 in if erred remote_addr
                                    then (outcome_bind (exception remote_addr)
                                            (\<lambda>p. Returns (Expected_exception p)), e2)
                                    else (outcome_bind (get local_addr) (\<lambda>la.
                                          outcome_bind (get remote_addr) (\<lambda>ra.
                                            Returns (Expected_value
                                              (TCPConnectionImpl_accepted sock la ra)))), e2)))))"

text \<open>\<^verbatim>\<open>accept()\<close> and \<^verbatim>\<open>timeout(t)\<close>.\<close>

definition TCPListenerImpl_accept_default ::
  "os \<Rightarrow> TCPListenerImpl \<Rightarrow> TCPConnectionImpl Expected outcome \<times> event list" where
  "TCPListenerImpl_accept_default os l = TCPListenerImpl_accept os l (lst_timeout l)"

definition TCPListenerImpl_timeout :: "TCPListenerImpl \<Rightarrow> int \<Rightarrow> TCPListenerImpl" where
  "TCPListenerImpl_timeout l t = l\<lparr>lst_timeout := t\<rparr>"

definition listen_tcp :: "os \<Rightarrow> string \<Rightarrow> TCPListenerImpl outcome \<times> event list" where
  "listen_tcp os address =
     (let (r, e0) = resolve os address
      in case outcome_bind r get of
           Throws x \<Rightarrow> (Throws x, e0)
         | Undefined_behaviour \<Rightarrow> (Undefined_behaviour, e0)
         | Returns resolved \<Rightarrow>
             if ai_socktype resolved \<noteq> SOCK_STREAM
             then (Throws (runtime_error
                     (''listen_tcp: attempting to use a non-TCP socket on '' @ quoted address)), e0)
             else (let (l, e1) = TCPListenerImpl_new os resolved in (l, e0 @ e1)))"

definition dial_tcp :: "os \<Rightarrow> string \<Rightarrow> TCPConnectionImpl outcome \<times> event list" where
  "dial_tcp os address =
     (let (r, e0) = resolve os address
      in case outcome_bind r get of
           Throws x \<Rightarrow> (Throws x, e0)
         | Undefined_behaviour \<Rightarrow> (Undefined_behaviour, e0)
         | Returns resolved \<Rightarrow>
             if ai_socktype resolved \<noteq> SOCK_STREAM
             then (Throws (runtime_error
                     (''dial_tcp: attempting to use a non-TCP socket on '' @ quoted address)), e0)
             else (let (c, e1) = TCPConnectionImpl_resolved os resolved in (c, e0 @ e1)))"

section \<open>UDP connections\<close>

record UDPConnectionImpl =
  udp_socket :: int
  udp_local_addr :: string
  udp_remote_addr :: string
  udp_remotes :: "string \<rightharpoonup> addrinfo"

definition unknown_addr :: string where
  "unknown_addr = ''?''"

text \<open>The sending constructor, \<^verbatim>\<open>UDPConnectionImpl(resolved, dialing)\<close>.\<close>

definition UDPConnectionImpl_dialing ::
  "os \<Rightarrow> addrinfo \<Rightarrow> string \<Rightarrow> UDPConnectionImpl outcome \<times> event list" where
  "UDPConnectionImpl_dialing os resolved dialing =
     (let sock = sys_socket os (ai_family resolved) (ai_socktype resolved) (ai_protocol resolved);
          e1 = [Sys_socket (ai_family resolved) (ai_socktype resolved) (ai_protocol resolved)]
      in if sock = -1
         then (Throws (runtime_error
                 (''UDPConnection::UDPConnection: unable to acquire socket - '' @ strerror_errno os)),
               e1)
         else if sys_connect os sock (ai_addr resolved) = -1
         then (Throws (runtime_error
                 (''UDPConnection::UDPConnection: unable to connect socket - '' @ strerror_errno os)),
               e1 @ [Sys_connect sock (ai_addr resolved)])
         else (let (local, e3) = netaddr_socket os sock
               in (outcome_bind (get local)
                     (\<lambda>l. Returns \<lparr>udp_socket = sock,
                                    udp_local_addr = ''udp://'' @ l,
                                    udp_remote_addr = dialing,
                                    udp_remotes = Map.empty\<rparr>),
                   e1 @ [Sys_connect sock (ai_addr resolved)] @ e3)))"

text \<open>The receiving constructor, \<^verbatim>\<open>UDPConnectionImpl(resolved)\<close>.\<close>

definition UDPConnectionImpl_listening ::
  "os \<Rightarrow> addrinfo \<Rightarrow> UDPConnectionImpl outcome \<times> event list" where
  "UDPConnectionImpl_listening os resolved =
     (let sock = sys_socket os (ai_family resolved) (ai_socktype resolved) (ai_protocol resolved);
          e1 = [Sys_socket (ai_family resolved) (ai_socktype resolved) (ai_protocol resolved)]
      in if sock = -1
         then (Throws (runtime_error
                 (''UDPConnection::UDPConnection: unable to acquire socket - '' @ strerror_errno os)),
               e1)
         else if sys_bind os sock (ai_addr resolved) = -1
         then (Throws (runtime_error
                 (''UDPConnection::UDPConnection: unable to bind socket - '' @ strerror_errno os)),
               e1 @ [Sys_bind sock (ai_addr resolved)])
         else (outcome_bind (get (netaddr os (ai_addr resolved)))
                 (\<lambda>l. Returns \<lparr>udp_socket = sock,
                                udp_local_addr = ''udp://'' @ l,
                                udp_remote_addr = unknown_addr,
                                udp_remotes = Map.empty\<rparr>),
               e1 @ [Sys_bind sock (ai_addr resolved)]))"

text \<open>
  \<^verbatim>\<open>UDPConnectionImpl\<close> declares no destructor. The implicit one destroys the two
  strings, the map and the mutex, and calls nothing of the operating system.
\<close>

definition UDPConnectionImpl_destroy :: "UDPConnectionImpl \<Rightarrow> event list" where
  "UDPConnectionImpl_destroy c = []"

definition UDPConnectionImpl_read_timeout ::
  "os \<Rightarrow> UDPConnectionImpl \<Rightarrow> int \<Rightarrow> unit outcome \<times> event list" where
  "UDPConnectionImpl_read_timeout os c t =
     (let s = t sdiv 1000000;
          tv = SO_RCVTIMEO s (t - s * 1000000)
      in if sys_setsockopt os (udp_socket c) tv = -1
         then (Throws (Exn (Pointer_to Runtime_error)
                 (''UDPConnection::read_timeout: unable to set read timeout - '' @ strerror_errno os)),
               [Sys_setsockopt (udp_socket c) tv])
         else (Returns (), [Sys_setsockopt (udp_socket c) tv]))"

definition UDPConnectionImpl_write_timeout ::
  "os \<Rightarrow> UDPConnectionImpl \<Rightarrow> int \<Rightarrow> unit outcome \<times> event list" where
  "UDPConnectionImpl_write_timeout os c t =
     (let s = t sdiv 1000000;
          tv = SO_SNDTIMEO s (t - s * 1000000)
      in if sys_setsockopt os (udp_socket c) tv = -1
         then (Throws (Exn (Pointer_to Runtime_error)
                 (''UDPConnection::read_timeout: unable to set write timeout - '' @ strerror_errno os)),
               [Sys_setsockopt (udp_socket c) tv])
         else (Returns (), [Sys_setsockopt (udp_socket c) tv]))"

definition UDPConnectionImpl_timeout ::
  "os \<Rightarrow> UDPConnectionImpl \<Rightarrow> int \<Rightarrow> unit outcome \<times> event list" where
  "UDPConnectionImpl_timeout os c t =
     (case UDPConnectionImpl_read_timeout os c t of
        (Returns u, e1) \<Rightarrow>
          (let (r, e2) = UDPConnectionImpl_write_timeout os c t in (r, e1 @ e2))
      | (r, e1) \<Rightarrow> (r, e1))"

text \<open>
  \<^verbatim>\<open>read(b, remote, t)\<close>: the result, and the string \<^verbatim>\<open>remote\<close> refers to after
  the call.
\<close>

definition UDPConnectionImpl_read_from ::
  "os \<Rightarrow> UDPConnectionImpl \<Rightarrow> 8 word list \<Rightarrow> string \<Rightarrow> int
     \<Rightarrow> (nat Expected \<times> string) outcome \<times> event list" where
  "UDPConnectionImpl_read_from os c b remote t =
     (let (result, pollerr) = sys_poll os (udp_socket c) POLLIN (poll_timeout t);
          e1 = [Sys_poll (udp_socket c) POLLIN (poll_timeout t)]
      in if result = -1 \<or> pollerr
         then (Returns (failed (runtime_error
                 (''UDPConnection::read: failed to poll the socket - '' @ strerror_errno os)),
                 remote), e1)
         else if result = 0
         then (Returns (failed (logic_error
                 ''UDPConnection::read: timeout whilst polling the socket''), remote), e1)
         else (let (s, sas) = sys_recvfrom os (udp_socket c) (length b);
                   e2 = e1 @ [Sys_recvfrom (udp_socket c) (length b)]
               in if s < 0
                  then (Returns (failed (runtime_error
                          (''UDPConnection::read: unable to read - '' @ strerror_errno os)),
                          remote), e2)
                  else (let from = netaddr os sas
                        in if erred from
                           then (Returns (Expected_value (nat s), unknown_addr), e2)
                           else (outcome_bind (get from)
                                   (\<lambda>f. Returns (Expected_value (nat s), ''udp://'' @ f)), e2))))"

definition UDPConnectionImpl_read_from_blocking ::
  "os \<Rightarrow> UDPConnectionImpl \<Rightarrow> 8 word list \<Rightarrow> string
     \<Rightarrow> (nat Expected \<times> string) outcome \<times> event list" where
  "UDPConnectionImpl_read_from_blocking os c b remote =
     UDPConnectionImpl_read_from os c b remote (-1)"

text \<open>
  \<^verbatim>\<open>read(b, t)\<close>, the read with no addressee. Its guard is
  \<^verbatim>\<open>if (__remote_addr != unknown_addr)\<close>; the local \<^verbatim>\<open>std::string whom\<close> starts
  empty and is dropped on return.
\<close>

definition UDPConnectionImpl_read ::
  "os \<Rightarrow> UDPConnectionImpl \<Rightarrow> 8 word list \<Rightarrow> int \<Rightarrow> nat Expected outcome \<times> event list" where
  "UDPConnectionImpl_read os c b t =
     (if udp_remote_addr c \<noteq> unknown_addr
      then (Returns (failed (logic_error
              ''UDPConnection::read: reading from a sending UDP connection without addressee'')),
            [])
      else (let (r, e) = UDPConnectionImpl_read_from os c b [] t
            in (outcome_bind r (\<lambda>(n, whom). Returns n), e)))"

definition UDPConnectionImpl_read_blocking ::
  "os \<Rightarrow> UDPConnectionImpl \<Rightarrow> 8 word list \<Rightarrow> nat Expected outcome \<times> event list" where
  "UDPConnectionImpl_read_blocking os c b = UDPConnectionImpl_read os c b (-1)"

text \<open>
  \<^verbatim>\<open>__resolve(remote)\<close>: the result, the connection with its cache after the call,
  and what was done. Each \<^verbatim>\<open>std::lock_guard\<close> scope is a lock, the access to
  \<^verbatim>\<open>__remotes\<close> inside it, and the unlock at the end of the scope.
\<close>

definition UDPConnectionImpl_resolve ::
  "os \<Rightarrow> UDPConnectionImpl \<Rightarrow> string
     \<Rightarrow> addrinfo Expected outcome \<times> UDPConnectionImpl \<times> event list" where
  "UDPConnectionImpl_resolve os c remote =
     (let e0 = [Mutex_lock, Remotes_find remote, Mutex_unlock]
      in case udp_remotes c remote of
           Some found \<Rightarrow> (Returns (Expected_value found), c, e0)
         | None \<Rightarrow>
             (let (r, e1) = resolve os remote
              in case r of
                   Throws x \<Rightarrow> (Throws x, c, e0 @ e1)
                 | Undefined_behaviour \<Rightarrow> (Undefined_behaviour, c, e0 @ e1)
                 | Returns resolved \<Rightarrow>
                     if erred resolved
                     then (outcome_bind (exception resolved)
                             (\<lambda>p. Returns (Expected_exception p)), c, e0 @ e1)
                     else (case get resolved of
                             Throws x \<Rightarrow> (Throws x, c, e0 @ e1 @ [Mutex_lock, Mutex_unlock])
                           | Undefined_behaviour \<Rightarrow>
                               (Undefined_behaviour, c, e0 @ e1 @ [Mutex_lock])
                           | Returns a \<Rightarrow>
                               (Returns (Expected_value a),
                                c\<lparr>udp_remotes := (udp_remotes c)(remote \<mapsto> a)\<rparr>,
                                e0 @ e1 @ [Mutex_lock, Remotes_store remote, Mutex_unlock]))))"

text \<open>\<^verbatim>\<open>write(b, remote, t)\<close>.\<close>

definition UDPConnectionImpl_write_to ::
  "os \<Rightarrow> UDPConnectionImpl \<Rightarrow> 8 word list \<Rightarrow> string \<Rightarrow> int
     \<Rightarrow> nat Expected outcome \<times> UDPConnectionImpl \<times> event list" where
  "UDPConnectionImpl_write_to os c b remote t =
     (let (r, c', e0) = UDPConnectionImpl_resolve os c remote
      in case r of
           Throws x \<Rightarrow> (Throws x, c', e0)
         | Undefined_behaviour \<Rightarrow> (Undefined_behaviour, c', e0)
         | Returns resolved \<Rightarrow>
             if erred resolved
             then (Returns (failed (invalid_argument
                     (''UDPConnection::write: unable to resolve the given remote ''
                      @ quoted remote))), c', e0)
             else (let (result, pollerr) = sys_poll os (udp_socket c) POLLOUT (poll_timeout t);
                       e1 = e0 @ [Sys_poll (udp_socket c) POLLOUT (poll_timeout t)]
                   in if result = -1 \<or> pollerr
                      then (Returns (failed (runtime_error
                              (''UDPConnection::writes: failed to poll the socket - ''
                               @ strerror_errno os))), c', e1)
                      else if result = 0
                      then (Returns (failed (logic_error
                              ''UDPConnection::write: timeout whilst polling the socket'')), c', e1)
                      else (case get resolved of
                              Throws x \<Rightarrow> (Throws x, c', e1)
                            | Undefined_behaviour \<Rightarrow> (Undefined_behaviour, c', e1)
                            | Returns to \<Rightarrow>
                                (let s = sys_sendto os (udp_socket c) b (ai_addr to);
                                     e2 = e1 @ [Sys_sendto (udp_socket c) (length b) (ai_addr to)]
                                 in if s < 0
                                    then (Returns (failed (runtime_error
                                            (''UDPConnection::write: unable to write - ''
                                             @ strerror_errno os))), c', e2)
                                    else (Returns (Expected_value (nat s)), c', e2)))))"

definition UDPConnectionImpl_write_to_blocking ::
  "os \<Rightarrow> UDPConnectionImpl \<Rightarrow> 8 word list \<Rightarrow> string
     \<Rightarrow> nat Expected outcome \<times> UDPConnectionImpl \<times> event list" where
  "UDPConnectionImpl_write_to_blocking os c b remote =
     UDPConnectionImpl_write_to os c b remote (-1)"

text \<open>
  The steps of \<^verbatim>\<open>write(b, remote, t)\<close> that follow a successful \<^verbatim>\<open>__resolve\<close>,
  for the handle \<^verbatim>\<open>to\<close> that \<^verbatim>\<open>resolved.get()\<close> gives: the poll and the
  \<^verbatim>\<open>sendto\<close>.
\<close>

definition UDPConnectionImpl_write_resolved ::
  "os \<Rightarrow> UDPConnectionImpl \<Rightarrow> 8 word list \<Rightarrow> addrinfo \<Rightarrow> int \<Rightarrow> nat Expected \<times> event list" where
  "UDPConnectionImpl_write_resolved os c b to t =
     (let (result, pollerr) = sys_poll os (udp_socket c) POLLOUT (poll_timeout t);
          e1 = [Sys_poll (udp_socket c) POLLOUT (poll_timeout t)]
      in if result = -1 \<or> pollerr
         then (failed (runtime_error
                 (''UDPConnection::writes: failed to poll the socket - '' @ strerror_errno os)), e1)
         else if result = 0
         then (failed (logic_error ''UDPConnection::write: timeout whilst polling the socket''), e1)
         else (let s = sys_sendto os (udp_socket c) b (ai_addr to);
                   e2 = e1 @ [Sys_sendto (udp_socket c) (length b) (ai_addr to)]
               in if s < 0
                  then (failed (runtime_error
                          (''UDPConnection::write: unable to write - '' @ strerror_errno os)), e2)
                  else (Expected_value (nat s), e2)))"

text \<open>\<^verbatim>\<open>write(b, t)\<close>, the write with no addressee.\<close>

definition UDPConnectionImpl_write ::
  "os \<Rightarrow> UDPConnectionImpl \<Rightarrow> 8 word list \<Rightarrow> int
     \<Rightarrow> nat Expected outcome \<times> UDPConnectionImpl \<times> event list" where
  "UDPConnectionImpl_write os c b t =
     (if udp_remote_addr c = unknown_addr
      then (Returns (failed (logic_error
              ''UDPConnection::write: writing to receiving UDP connection without addressee'')),
            c, [])
      else UDPConnectionImpl_write_to os c b (udp_remote_addr c) t)"

definition UDPConnectionImpl_write_blocking ::
  "os \<Rightarrow> UDPConnectionImpl \<Rightarrow> 8 word list
     \<Rightarrow> nat Expected outcome \<times> UDPConnectionImpl \<times> event list" where
  "UDPConnectionImpl_write_blocking os c b = UDPConnectionImpl_write os c b (-1)"

definition listen_udp :: "os \<Rightarrow> string \<Rightarrow> UDPConnectionImpl outcome \<times> event list" where
  "listen_udp os address =
     (let (r, e0) = resolve os address
      in case outcome_bind r get of
           Throws x \<Rightarrow> (Throws x, e0)
         | Undefined_behaviour \<Rightarrow> (Undefined_behaviour, e0)
         | Returns resolved \<Rightarrow>
             if ai_socktype resolved \<noteq> SOCK_DGRAM
             then (Throws (runtime_error
                     (''listen_udp: attempting to use a non-UDP socket on '' @ quoted address)), e0)
             else (let (c, e1) = UDPConnectionImpl_listening os resolved in (c, e0 @ e1)))"

definition dial_udp :: "os \<Rightarrow> string \<Rightarrow> UDPConnectionImpl outcome \<times> event list" where
  "dial_udp os address =
     (let (r, e0) = resolve os address
      in case outcome_bind r get of
           Throws x \<Rightarrow> (Throws x, e0)
         | Undefined_behaviour \<Rightarrow> (Undefined_behaviour, e0)
         | Returns resolved \<Rightarrow>
             if ai_socktype resolved \<noteq> SOCK_DGRAM
             then (Throws (runtime_error
                     (''dial_udp: attempting to use a non-UDP socket on '' @ quoted address)), e0)
             else (let (c, e1) = UDPConnectionImpl_dialing os resolved address in (c, e0 @ e1)))"

section \<open>A machine to run the code on\<close>

text \<open>
  A loopback host on which every call succeeds and every socket is ready. Descriptor 3
  is the next free one and an accepted connection gets 4. \<open>heap\<close> is where
  \<^verbatim>\<open>getaddrinfo\<close> puts the \<^verbatim>\<open>sockaddr\<close> of its result; the locals that
  \<^verbatim>\<open>getsockname\<close>, \<^verbatim>\<open>accept\<close> and \<^verbatim>\<open>recvfrom\<close> fill live on the stack.
  The service of the looked-up address is port 5432 and the peer's port is 40000.
\<close>

definition loopback_at :: "nat \<Rightarrow> nat \<Rightarrow> sockaddr_ptr" where
  "loopback_at p port =
     \<lparr>ptr_address = p,
      pointee = \<lparr>sa_family = AF_INET, sin_port = port, sin_addr = 2130706433\<rparr>\<rparr>"

definition resolved_at :: "socktype \<Rightarrow> nat \<Rightarrow> addrinfo" where
  "resolved_at s heap =
     \<lparr>ai_family = AF_INET, ai_socktype = s, ai_protocol = 0, ai_addr = loopback_at heap 5432\<rparr>"

definition loopback :: "nat \<Rightarrow> os" where
  "loopback heap =
     \<lparr>sys_socket = (\<lambda>f s p. 3),
      sys_connect = (\<lambda>fd a. 0),
      sys_bind = (\<lambda>fd a. 0),
      sys_listen = (\<lambda>fd n. 0),
      sys_setsockopt = (\<lambda>fd opt. 0),
      sys_poll = (\<lambda>fd ev t. (1, False)),
      sys_read = (\<lambda>fd n. int n),
      sys_write = (\<lambda>fd b. int (length b)),
      sys_recvfrom = (\<lambda>fd n. (int n, loopback_at 0x7FFD5E3A1D00 40000)),
      sys_sendto = (\<lambda>fd b a. int (length b)),
      sys_accept = (\<lambda>fd. (4, loopback_at 0x7FFD5E3A1C40 40000)),
      sys_getsockname = (\<lambda>fd. (0, loopback_at 0x7FFD5E3A1B80 40000)),
      sys_getaddrinfo = (\<lambda>h p s. (0, resolved_at s heap)),
      sys_gai_strerror = (\<lambda>n. ''Name or service not known''),
      sys_inet_ntop = (\<lambda>f a. Some ''127.0.0.1''),
      strerror_errno = ''Connection refused''\<rparr>"

text \<open>
  Two processes on that host, a listener and a dialer, whose allocators hand out
  addresses on either side of a 64 KiB boundary.
\<close>

definition listener_heap :: nat where
  "listener_heap = 0x55555556FFE0"

definition dialer_heap :: nat where
  "dialer_heap = 0x555555570020"

text \<open>
  The same host when nobody connects: \<^verbatim>\<open>poll\<close> runs into its deadline, and an
  \<^verbatim>\<open>accept\<close> issued all the same finds no connection.
\<close>

definition quiet :: "nat \<Rightarrow> os" where
  "quiet heap =
     (loopback heap)
       \<lparr>sys_poll := (\<lambda>fd ev t. (0, False)),
        sys_accept := (\<lambda>fd. (-1, loopback_at 0x7FFD5E3A1C40 0)),
        strerror_errno := ''Resource temporarily unavailable''\<rparr>"

text \<open>The same host when \<^verbatim>\<open>connect\<close> and \<^verbatim>\<open>bind\<close> fail.\<close>

definition refusing :: "nat \<Rightarrow> os" where
  "refusing heap =
     (loopback heap)\<lparr>sys_connect := (\<lambda>fd a. -1), sys_bind := (\<lambda>fd a. -1)\<rparr>"

text \<open>The same host when name resolution fails (\<^verbatim>\<open>EAI_NONAME\<close> is -2).\<close>

definition unresolving :: "nat \<Rightarrow> os" where
  "unresolving heap =
     (loopback heap)
       \<lparr>sys_getaddrinfo := (\<lambda>h p s. (-2, \<lparr>ai_family = AF_other, ai_socktype = s,
                                           ai_protocol = 0, ai_addr = loopback_at 0 0\<rparr>))\<rparr>"

section \<open>The result type: what \<^verbatim>\<open>erred\<close>, \<^verbatim>\<open>get\<close> and \<^verbatim>\<open>swap\<close> do\<close>

lemma unexpected_exact: "unexpected (typeid e) e = Returns (failed e)"
  by (simp add: unexpected_def failed_def)

lemma erred_failed: "erred (failed e)"
  by (simp add: erred_def failed_def Expected_exception_def)

lemma get_failed: "get (failed e) = Throws e"
  by (simp add: get_def failed_def Expected_exception_def)

lemma get_Expected_value: "get (Expected_value v) = Returns v"
  by (simp add: get_def Expected_value_def)

text \<open>
  No constructor produces a flag that disagrees with the union; on such a pair
  \<^verbatim>\<open>get()\<close> would read the member that is not alive.
\<close>

lemma get_inactive_member:
  "get \<lparr>erred_flag = True, storage = Value v\<rparr> = Undefined_behaviour"
  "get \<lparr>erred_flag = False, storage = Exception p\<rparr> = Undefined_behaviour"
  by (simp_all add: get_def split: option.splits)

lemma Expected_move_keeps:
  "Expected_move lv lp (Expected_value v) =
     Returns (Expected_value v, Expected_value (lv v))"
  "Expected_move lv lp (Expected_exception p) =
     Returns (Expected_exception p, Expected_exception (lp p))"
  by (simp_all add: Expected_move_def Expected_value_def Expected_exception_def)




text \<open>
  C10, at a pair the claim covers: \<^verbatim>\<open>a\<close> holds an error, \<^verbatim>\<open>b\<close> a value. The
  branch of \<^verbatim>\<open>swap\<close> taken there is \<^verbatim>\<open>rhs.wap(*this)\<close>, which is no call of any
  member, so nothing is exchanged; the same holds when both hold an error.
\<close>

theorem swap_error_first_ill_formed:
  "swap (failed (runtime_error ''boom'')) (Expected_value (1::nat)) = None \<and>
   swap (failed (runtime_error ''boom'')) (failed (logic_error ''bang'') :: nat Expected) = None"
  by (simp add: swap_def swap_branch_well_formed_def)

text \<open>
  With those two branches in its body no call of \<^verbatim>\<open>swap\<close> compiles, whatever the
  two objects hold.
\<close>

lemma swap_never_compiles: "swap a b = None"
  by (simp add: swap_def swap_branch_well_formed_def)

section \<open>Address resolution\<close>

lemma string_find_absent: "c \<notin> set s \<Longrightarrow> string_find s [c] = None"
  by (induction s) auto

lemma resolve_getaddrinfo_events:
  "snd (resolve_getaddrinfo os a hn p s) = [Sys_getaddrinfo hn p s]"
  by (simp add: resolve_getaddrinfo_def split_def Let_def)

lemma resolve_cases:
  "fst (resolve os a) = Undefined_behaviour \<or>
   (\<exists>msg. fst (resolve os a) = Returns (failed (runtime_error msg))) \<or>
   (\<exists>v. fst (resolve os a) = Returns (Expected_value v))"
  by (auto simp: resolve_def resolve_getaddrinfo_def Let_def split_def split: option.splits)

lemma resolve_success:
  assumes "resolve os a = (Returns r, e)" and "\<not> erred r"
  shows "\<exists>v. r = Expected_value v"
  using resolve_cases [of os a] assms by (auto simp: erred_failed)

lemma resolve_failure:
  assumes "resolve os a = (Returns r, e)" and "erred r"
  shows "\<exists>msg. r = failed (runtime_error msg)"
  using resolve_cases [of os a] assms by (auto simp: erred_def Expected_value_def)

lemma resolve_events_no_close: "Sys_close fd \<notin> set (snd (resolve os a))"
  by (auto simp: resolve_def resolve_getaddrinfo_def Let_def split_def split: option.splits)

text \<open>
  A protocol token that is neither \<^verbatim>\<open>tcp\<close> nor \<^verbatim>\<open>udp\<close> is a resolution error, and
  nothing is asked of the operating system.
\<close>

lemma resolve_unsupported_protocol:
  assumes "string_find address ''://'' = Some pos"
    and "c_str (take pos address) \<noteq> ''tcp''" and "c_str (take pos address) \<noteq> ''udp''"
  shows "resolve os address =
           (Returns (failed (runtime_error (''resolve: unable to resolve '' @ quoted address
              @ '' - Unsupported protocol '' @ quoted (c_str (take pos address))))), [])"
  using assms by (simp add: resolve_def snip_def Snipper_new_def split_def)

text \<open>The port is 80 when the address ends in the colon after the host.\<close>

lemma resolve_port_80:
  "resolve os ''tcp://localhost:'' =
     resolve_getaddrinfo os ''tcp://localhost:'' (Some ''localhost'') ''80'' SOCK_STREAM"
  by (simp add: resolve_def snip_def Snipper_new_def remaining_or_def c_str_def)

text \<open>
  C3. For an address \<^verbatim>\<open>tcp://host\<close> or \<^verbatim>\<open>udp://host\<close> with no colon after the
  host, the second snip finds no delimiter, returns \<^verbatim>\<open>NULL\<close> and consumes nothing:
  \<^verbatim>\<open>getaddrinfo\<close> is called with a null host name and with the host as the service.
  The port 80 is not used.
\<close>

theorem resolve_without_port:
  assumes "CHR '':'' \<notin> set host" and "host \<noteq> []"
  shows "resolve os (''tcp://'' @ host) =
           resolve_getaddrinfo os (''tcp://'' @ host) None (c_str host) SOCK_STREAM \<and>
         resolve os (''udp://'' @ host) =
           resolve_getaddrinfo os (''udp://'' @ host) None (c_str host) SOCK_DGRAM \<and>
         snd (resolve os (''tcp://'' @ host)) = [Sys_getaddrinfo None (c_str host) SOCK_STREAM] \<and>
         snd (resolve os (''udp://'' @ host)) = [Sys_getaddrinfo None (c_str host) SOCK_DGRAM]"
proof -
  have t: "string_find (''tcp://'' @ host) ''://'' = Some 3"
    and u: "string_find (''udp://'' @ host) ''://'' = Some 3"
    by simp_all
  have h: "string_find host '':'' = None"
    using assms(1) by (rule string_find_absent)
  have st: "snip (Snipper_new (''tcp://'' @ host) 3) ''://'' =
      (Some ''tcp'', \<lparr>snipper_str = host, snipper_snipped = [''tcp'']\<rparr>)"
    using t by (simp add: snip_def Snipper_new_def c_str_def)
  have su: "snip (Snipper_new (''udp://'' @ host) 3) ''://'' =
      (Some ''udp'', \<lparr>snipper_str = host, snipper_snipped = [''udp'']\<rparr>)"
    using u by (simp add: snip_def Snipper_new_def c_str_def)
  have sh: "snip \<lparr>snipper_str = host, snipper_snipped = xs\<rparr> '':'' =
      (None, \<lparr>snipper_str = host, snipper_snipped = xs\<rparr>)" for xs
    using h by (simp add: snip_def)
  have rt: "resolve os (''tcp://'' @ host) =
           resolve_getaddrinfo os (''tcp://'' @ host) None (c_str host) SOCK_STREAM"
    using assms(2) by (simp add: resolve_def st sh remaining_or_def del: append.simps)
  have ru: "resolve os (''udp://'' @ host) =
           resolve_getaddrinfo os (''udp://'' @ host) None (c_str host) SOCK_DGRAM"
    using assms(2) by (simp add: resolve_def su sh remaining_or_def del: append.simps)
  show ?thesis
    using rt ru by (simp add: resolve_getaddrinfo_events)
qed

theorem resolve_without_port_witness:
  "CHR '':'' \<notin> set ''localhost'' \<and>
   snd (resolve (loopback listener_heap) ''tcp://localhost'') =
     [Sys_getaddrinfo None ''localhost'' SOCK_STREAM] \<and>
   snd (resolve (loopback listener_heap) ''udp://localhost'') =
     [Sys_getaddrinfo None ''localhost'' SOCK_DGRAM]"
  using resolve_without_port [of "''localhost''" "loopback listener_heap"]
  by (simp add: c_str_def resolve_getaddrinfo_events)

text \<open>
  C7, at the addresses the claim calls unparsable: with no \<^verbatim>\<open>://\<close> in the address the
  first snip returns \<^verbatim>\<open>NULL\<close>, and \<^verbatim>\<open>resolve\<close> builds a \<^verbatim>\<open>std::string\<close> from
  that null pointer before it has looked at anything else. No \<^verbatim>\<open>Expected\<close> is
  returned, so no resolution error either.
\<close>

theorem resolve_without_separator:
  assumes "string_find address ''://'' = None"
  shows "resolve os address = (Undefined_behaviour, [])"
  using assms by (simp add: resolve_def snip_def Snipper_new_def split_def)

theorem resolve_without_separator_witness:
  "string_find ''localhost:80'' ''://'' = None \<and>
   resolve (loopback listener_heap) ''localhost:80'' = (Undefined_behaviour, [])"
  using resolve_without_separator [of "''localhost:80''" "loopback listener_heap"] by simp

section \<open>Runs on the loopback host\<close>

lemma poll_timeout_in_range:
  assumes "- (2 ^ 31) \<le> t" and "t < 2 ^ 31"
  shows "poll_timeout t = t"
proof -
  have "0 \<le> t + 2 ^ 31" and "t + 2 ^ 31 < 2 ^ 32"
    using assms by simp_all
  then have "(t + 2 ^ 31) mod 2 ^ 32 = t + 2 ^ 31"
    by (rule mod_pos_pos_trivial)
  then show ?thesis
    by (simp add: poll_timeout_def)
qed

lemma poll_timeout_samples [simp]:
  "poll_timeout 1000 = 1000" "poll_timeout 50 = 50" "poll_timeout (- 1) = - 1"
  by (simp_all add: poll_timeout_def)

text \<open>Counts that do not fit: 2^32 milliseconds poll with 0, 2^31 with a negative number.\<close>

lemma poll_timeout_narrowed:
  "poll_timeout 4294967296 = 0" "poll_timeout 2147483648 = - 2147483648"
  by (simp_all add: poll_timeout_def)

lemma loopback_answers:
  "sys_socket (loopback h) f s proto = 3"
  "sys_connect (loopback h) fd a = 0"
  "sys_bind (loopback h) fd a = 0"
  "sys_listen (loopback h) fd n = 0"
  "sys_setsockopt (loopback h) fd opt = 0"
  "sys_poll (loopback h) fd ev t = (1, False)"
  "sys_read (loopback h) fd len = int len"
  "sys_write (loopback h) fd b = int (length b)"
  "sys_recvfrom (loopback h) fd len = (int len, loopback_at 0x7FFD5E3A1D00 40000)"
  "sys_sendto (loopback h) fd b a = int (length b)"
  "sys_accept (loopback h) fd = (4, loopback_at 0x7FFD5E3A1C40 40000)"
  "sys_getsockname (loopback h) fd = (0, loopback_at 0x7FFD5E3A1B80 40000)"
  "sys_getaddrinfo (loopback h) hn service s = (0, resolved_at s h)"
  "strerror_errno (loopback h) = ''Connection refused''"
  by (simp_all add: loopback_def)

lemma erred_Expected_value: "\<not> erred (Expected_value v)"
  by (simp add: erred_def Expected_value_def)

lemma port_behind_pointer_samples:
  "port_behind_pointer listener_heap = 22101"
  "port_behind_pointer dialer_heap = 22357"
  "port_behind_pointer 0x7FFD5E3A1B80 = 14942"
  "port_behind_pointer 0x7FFD5E3A1C40 = 14942"
  "port_behind_pointer 0x7FFD5E3A1D00 = 14942"
  by (simp_all add: port_behind_pointer_def listener_heap_def dialer_heap_def)

lemma to_string_samples:
  "to_string 22101 = ''22101''" "to_string 22357 = ''22357''" "to_string 14942 = ''14942''"
  by (simp_all add: to_string.simps digit_def)

lemma resolve_tcp_sample:
  "resolve os ''tcp://127.0.0.1:5432'' =
     resolve_getaddrinfo os ''tcp://127.0.0.1:5432'' (Some ''127.0.0.1'') ''5432'' SOCK_STREAM"
  by (simp add: resolve_def snip_def Snipper_new_def remaining_or_def c_str_def)

lemma resolve_udp_sample:
  "resolve os ''udp://127.0.0.1:5432'' =
     resolve_getaddrinfo os ''udp://127.0.0.1:5432'' (Some ''127.0.0.1'') ''5432'' SOCK_DGRAM"
  by (simp add: resolve_def snip_def Snipper_new_def remaining_or_def c_str_def)

lemma resolve_udp_loopback:
  "resolve (loopback h) ''udp://127.0.0.1:5432'' =
     (Returns (Expected_value (resolved_at SOCK_DGRAM h)),
      [Sys_getaddrinfo (Some ''127.0.0.1'') ''5432'' SOCK_DGRAM])"
  by (simp add: resolve_udp_sample resolve_getaddrinfo_def loopback_answers)

lemma resolve_udp_unresolving:
  "resolve (unresolving h) ''udp://127.0.0.1:5432'' =
     (Returns (failed (runtime_error (''resolve: trying to resolve ''
        @ quoted ''udp://127.0.0.1:5432'' @ '' but failed - Name or service not known''))),
      [Sys_getaddrinfo (Some ''127.0.0.1'') ''5432'' SOCK_DGRAM])"
  by (simp add: resolve_udp_sample resolve_getaddrinfo_def unresolving_def loopback_def)

section \<open>Printed addresses\<close>

lemma netaddr_cases:
  "(\<exists>msg. netaddr os sa = failed (runtime_error msg)) \<or> (\<exists>s. netaddr os sa = Expected_value s)"
  by (auto simp: netaddr_def split: option.splits)

text \<open>What \<^verbatim>\<open>netaddr\<close> prints does not depend on the port stored in the address.\<close>

lemma netaddr_ignores_sin_port:
  "netaddr os (sa\<lparr>pointee := (pointee sa)\<lparr>sin_port := n\<rparr>\<rparr>) = netaddr os sa"
  by (simp add: netaddr_def)

lemma netaddr_loopback:
  "netaddr (loopback h) (loopback_at p n) =
     Expected_value (''127.0.0.1:'' @ to_string (port_behind_pointer p))"
  by (simp add: netaddr_def loopback_def loopback_at_def)

lemma listen_tcp_sample:
  "listen_tcp (loopback listener_heap) ''tcp://127.0.0.1:5432'' =
    (Returns \<lparr>lst_addr = resolved_at SOCK_STREAM listener_heap, lst_timeout = -1, lst_socket = 3\<rparr>,
     [Sys_getaddrinfo (Some ''127.0.0.1'') ''5432'' SOCK_STREAM, Sys_socket AF_INET SOCK_STREAM 0,
      Sys_setsockopt 3 (SO_REUSEADDR 1), Sys_bind 3 (loopback_at listener_heap 5432),
      Sys_listen 3 512])"
  by (simp add: listen_tcp_def resolve_tcp_sample resolve_getaddrinfo_def loopback_answers
      TCPListenerImpl_new_def kDefaultListenBacklog_def get_Expected_value resolved_at_def)

lemma dial_tcp_sample:
  "dial_tcp (loopback dialer_heap) ''tcp://127.0.0.1:5432'' =
    (Returns \<lparr>tcp_socket = 3, tcp_local_addr = ''tcp://127.0.0.1:14942'',
              tcp_remote_addr = ''tcp://127.0.0.1:22357''\<rparr>,
     [Sys_getaddrinfo (Some ''127.0.0.1'') ''5432'' SOCK_STREAM, Sys_socket AF_INET SOCK_STREAM 0,
      Sys_connect 3 (loopback_at dialer_heap 5432), Sys_getsockname 3])"
  by (simp add: dial_tcp_def resolve_tcp_sample resolve_getaddrinfo_def loopback_answers
      TCPConnectionImpl_resolved_def netaddr_socket_def netaddr_loopback
      port_behind_pointer_samples to_string_samples get_Expected_value resolved_at_def)

lemma accept_sample:
  "TCPListenerImpl_accept (loopback listener_heap)
     \<lparr>lst_addr = resolved_at SOCK_STREAM listener_heap, lst_timeout = -1, lst_socket = 3\<rparr> 1000 =
    (Returns (Expected_value \<lparr>tcp_socket = 4, tcp_local_addr = ''tcp://127.0.0.1:22101'',
              tcp_remote_addr = ''tcp://127.0.0.1:14942''\<rparr>),
     [Sys_poll 3 POLLIN 1000, Sys_accept 3])"
  by (simp add: TCPListenerImpl_accept_def loopback_answers netaddr_loopback
      port_behind_pointer_samples to_string_samples get_Expected_value erred_Expected_value
      TCPConnectionImpl_accepted_def resolved_at_def)

text \<open>
  C4, on the loopback host: a listener on \<^verbatim>\<open>tcp://127.0.0.1:5432\<close>, a dialer to the
  same address, and the connection the listener accepts. Every call succeeds. The dialer
  prints its peer as port 22357 and the accepted connection prints its own end as port
  22101: both numbers are bytes of the two \<^verbatim>\<open>ai_addr\<close> pointers, neither is 5432, and
  the two strings differ.
\<close>

theorem dialed_and_accepted_addresses_differ:
  "fst (listen_tcp (loopback listener_heap) ''tcp://127.0.0.1:5432'') =
     Returns \<lparr>lst_addr = resolved_at SOCK_STREAM listener_heap, lst_timeout = -1, lst_socket = 3\<rparr> \<and>
   fst (dial_tcp (loopback dialer_heap) ''tcp://127.0.0.1:5432'') =
     Returns \<lparr>tcp_socket = 3, tcp_local_addr = ''tcp://127.0.0.1:14942'',
              tcp_remote_addr = ''tcp://127.0.0.1:22357''\<rparr> \<and>
   fst (TCPListenerImpl_accept (loopback listener_heap)
          \<lparr>lst_addr = resolved_at SOCK_STREAM listener_heap, lst_timeout = -1, lst_socket = 3\<rparr>
          1000) =
     Returns (Expected_value \<lparr>tcp_socket = 4, tcp_local_addr = ''tcp://127.0.0.1:22101'',
              tcp_remote_addr = ''tcp://127.0.0.1:14942''\<rparr>) \<and>
   ''tcp://127.0.0.1:22357'' \<noteq> ''tcp://127.0.0.1:22101''"
  by (simp add: listen_tcp_sample dial_tcp_sample accept_sample)

section \<open>Deadlines\<close>

lemma TCPConnectionImpl_read_timed_out:
  assumes "sys_poll os (tcp_socket c) POLLIN (poll_timeout t) = (0, False)"
  shows "TCPConnectionImpl_read os c b t =
           (failed (logic_error ''TCPConnection::read: timeout whilst polling the socket''),
            [Sys_poll (tcp_socket c) POLLIN (poll_timeout t)])"
  using assms by (simp add: TCPConnectionImpl_read_def)

lemma TCPConnectionImpl_write_timed_out:
  assumes "sys_poll os (tcp_socket c) POLLOUT (poll_timeout t) = (0, False)"
  shows "TCPConnectionImpl_write os c b t =
           (failed (logic_error ''TCPConnection::write: timeout whilst polling the socket''),
            [Sys_poll (tcp_socket c) POLLOUT (poll_timeout t)])"
  using assms by (simp add: TCPConnectionImpl_write_def)

lemma UDPConnectionImpl_read_from_timed_out:
  assumes "sys_poll os (udp_socket c) POLLIN (poll_timeout t) = (0, False)"
  shows "UDPConnectionImpl_read_from os c b remote t =
           (Returns (failed (logic_error ''UDPConnection::read: timeout whilst polling the socket''),
                     remote),
            [Sys_poll (udp_socket c) POLLIN (poll_timeout t)])"
  using assms by (simp add: UDPConnectionImpl_read_from_def)

lemma UDPConnectionImpl_write_to_timed_out:
  assumes "UDPConnectionImpl_resolve os c remote = (Returns r, c', e0)" and "\<not> erred r"
    and "sys_poll os (udp_socket c) POLLOUT (poll_timeout t) = (0, False)"
  shows "UDPConnectionImpl_write_to os c b remote t =
           (Returns (failed (logic_error ''UDPConnection::write: timeout whilst polling the socket'')),
            c', e0 @ [Sys_poll (udp_socket c) POLLOUT (poll_timeout t)])"
  using assms by (simp add: UDPConnectionImpl_write_to_def)

text \<open>
  C1, for \<^verbatim>\<open>accept\<close>: when \<^verbatim>\<open>poll\<close> returns 0 (the deadline passed and nothing is
  ready), \<^verbatim>\<open>accept\<close> goes on to the \<^verbatim>\<open>accept\<close> system call, and whatever it
  returns is not a logic error: it is a connection or a system error. The four
  read and write forms above stop at the \<^verbatim>\<open>poll\<close> with the timeout error.
\<close>

theorem accept_after_poll_timeout:
  assumes "sys_poll os (lst_socket l) POLLIN (poll_timeout t) = (0, False)"
  shows "snd (TCPListenerImpl_accept os l t) =
           [Sys_poll (lst_socket l) POLLIN (poll_timeout t), Sys_accept (lst_socket l)] \<and>
         (\<forall>msg. fst (TCPListenerImpl_accept os l t) \<noteq> Returns (failed (logic_error msg)))"
proof -
  obtain sock sas where a: "sys_accept os (lst_socket l) = (sock, sas)"
    by (cases "sys_accept os (lst_socket l)")
  have ev: "snd (TCPListenerImpl_accept os l t) =
           [Sys_poll (lst_socket l) POLLIN (poll_timeout t), Sys_accept (lst_socket l)]"
    using assms a by (simp add: TCPListenerImpl_accept_def Let_def)
  have res: "fst (TCPListenerImpl_accept os l t) \<noteq> Returns (failed (logic_error msg))" for msg
    using assms a netaddr_cases [of os "ai_addr (lst_addr l)"] netaddr_cases [of os sas]
    by (auto simp: TCPListenerImpl_accept_def Let_def erred_def failed_def exception_def get_def
        Expected_exception_def Expected_value_def runtime_error_def logic_error_def)
  from ev res show ?thesis by blast
qed

theorem accept_after_poll_timeout_witness:
  "poll_timeout 50 = 50 \<and>
   sys_poll (quiet listener_heap) 3 POLLIN 50 = (0, False) \<and>
   TCPListenerImpl_accept (quiet listener_heap)
     \<lparr>lst_addr = resolved_at SOCK_STREAM listener_heap, lst_timeout = -1, lst_socket = 3\<rparr> 50 =
     (Returns (failed (runtime_error
        ''TCPListener::accept: failed to accept a new connection - Resource temporarily unavailable'')),
      [Sys_poll 3 POLLIN 50, Sys_accept 3])"
proof -
  have h: "sys_poll (quiet listener_heap)
      (lst_socket \<lparr>lst_addr = resolved_at SOCK_STREAM listener_heap, lst_timeout = -1,
                  lst_socket = 3\<rparr>) POLLIN (poll_timeout 50) = (0, False)"
    by (simp add: quiet_def loopback_def)
  show ?thesis
    using h accept_after_poll_timeout [OF h]
    by (simp add: TCPListenerImpl_accept_def quiet_def loopback_def)
qed

section \<open>Construction and destruction\<close>

lemma TCPConnectionImpl_failed_connect_closes:
  assumes "get (netaddr os (ai_addr r)) = Returns remote"
    and "sys_socket os (ai_family r) (ai_socktype r) (ai_protocol r) = fd" and "fd \<noteq> -1"
    and "sys_connect os fd (ai_addr r) < 0"
  shows "TCPConnectionImpl_resolved os r =
        (Throws (runtime_error
           (''TCPConnection::TCPConnection: unable to connect socket - '' @ strerror_errno os)),
         [Sys_socket (ai_family r) (ai_socktype r) (ai_protocol r), Sys_connect fd (ai_addr r),
          Sys_close fd])"
  using assms by (simp add: TCPConnectionImpl_resolved_def Let_def)

lemma TCPListenerImpl_failed_construction_closes:
  assumes "sys_socket os (ai_family r) (ai_socktype r) (ai_protocol r) = fd" and "fd \<noteq> -1"
    and "TCPListenerImpl_new os r = (Throws e, ev)"
  shows "last ev = Sys_close fd"
  using assms by (auto simp: TCPListenerImpl_new_def Let_def split: if_splits)

text \<open>
  C5, for the two UDP constructors: once the socket exists, a failing \<^verbatim>\<open>connect\<close>
  (sending side) or \<^verbatim>\<open>bind\<close> (receiving side) makes the constructor throw straight
  away. The calls issued are \<^verbatim>\<open>socket\<close> and the failing call; the descriptor is not
  closed. The TCP connection and the TCP listener close it, as the two lemmas above say.
\<close>

theorem UDPConnectionImpl_failed_construction_leaks:
  "(sys_socket os (ai_family r) (ai_socktype r) (ai_protocol r) = fd \<and> fd \<noteq> -1 \<and>
      sys_connect os fd (ai_addr r) = -1 \<longrightarrow>
      UDPConnectionImpl_dialing os r d =
        (Throws (runtime_error
           (''UDPConnection::UDPConnection: unable to connect socket - '' @ strerror_errno os)),
         [Sys_socket (ai_family r) (ai_socktype r) (ai_protocol r), Sys_connect fd (ai_addr r)])) \<and>
   (sys_socket os (ai_family r) (ai_socktype r) (ai_protocol r) = fd \<and> fd \<noteq> -1 \<and>
      sys_bind os fd (ai_addr r) = -1 \<longrightarrow>
      UDPConnectionImpl_listening os r =
        (Throws (runtime_error
           (''UDPConnection::UDPConnection: unable to bind socket - '' @ strerror_errno os)),
         [Sys_socket (ai_family r) (ai_socktype r) (ai_protocol r), Sys_bind fd (ai_addr r)]))"
  by (simp add: UDPConnectionImpl_dialing_def UDPConnectionImpl_listening_def Let_def)

theorem UDPConnectionImpl_failed_construction_leaks_witness:
  "UDPConnectionImpl_dialing (refusing listener_heap) (resolved_at SOCK_DGRAM listener_heap)
       ''udp://127.0.0.1:5432'' =
     (Throws (runtime_error
        ''UDPConnection::UDPConnection: unable to connect socket - Connection refused''),
      [Sys_socket AF_INET SOCK_DGRAM 0, Sys_connect 3 (loopback_at listener_heap 5432)]) \<and>
   UDPConnectionImpl_listening (refusing listener_heap) (resolved_at SOCK_DGRAM listener_heap) =
     (Throws (runtime_error
        ''UDPConnection::UDPConnection: unable to bind socket - Connection refused''),
      [Sys_socket AF_INET SOCK_DGRAM 0, Sys_bind 3 (loopback_at listener_heap 5432)])"
  using UDPConnectionImpl_failed_construction_leaks [of "refusing listener_heap"
      "resolved_at SOCK_DGRAM listener_heap" 3 "''udp://127.0.0.1:5432''"]
  by (simp add: refusing_def loopback_def resolved_at_def)

lemma TCPConnectionImpl_destroy_closes_once:
  "TCPConnectionImpl_destroy c = [Sys_close (tcp_socket c)]"
  by (simp add: TCPConnectionImpl_destroy_def)

lemma TCPListenerImpl_destroy_closes_once:
  "TCPListenerImpl_destroy l = [Sys_close (lst_socket l)]"
  by (simp add: TCPListenerImpl_destroy_def)

lemma TCPConnectionImpl_reads_and_writes_keep_open:
  "Sys_close fd \<notin> set (snd (TCPConnectionImpl_read os c b t))"
  "Sys_close fd \<notin> set (snd (TCPConnectionImpl_write os c b t))"
  by (simp_all add: TCPConnectionImpl_read_def TCPConnectionImpl_write_def Let_def split_def)

lemma netaddr_socket_no_close: "Sys_close fd \<notin> set (snd (netaddr_socket os s))"
  by (simp add: netaddr_socket_def Let_def split_def)

lemma UDPConnectionImpl_listening_no_close:
  "Sys_close fd \<notin> set (snd (UDPConnectionImpl_listening os r))"
  by (simp add: UDPConnectionImpl_listening_def Let_def)

lemma UDPConnectionImpl_dialing_no_close:
  "Sys_close fd \<notin> set (snd (UDPConnectionImpl_dialing os r d))"
  using netaddr_socket_no_close [of fd os]
  by (simp add: UDPConnectionImpl_dialing_def Let_def split_def)

lemma listen_udp_sample:
  "listen_udp (loopback listener_heap) ''udp://127.0.0.1:5432'' =
    (Returns \<lparr>udp_socket = 3, udp_local_addr = ''udp://127.0.0.1:22101'',
              udp_remote_addr = unknown_addr, udp_remotes = Map.empty\<rparr>,
     [Sys_getaddrinfo (Some ''127.0.0.1'') ''5432'' SOCK_DGRAM, Sys_socket AF_INET SOCK_DGRAM 0,
      Sys_bind 3 (loopback_at listener_heap 5432)])"
  by (simp add: listen_udp_def resolve_udp_loopback loopback_answers
      UDPConnectionImpl_listening_def netaddr_loopback port_behind_pointer_samples
      to_string_samples get_Expected_value resolved_at_def)

text \<open>
  C6, for UDP connections: neither factory closes anything, and destroying the connection
  issues no call at all, so the descriptor that \<^verbatim>\<open>socket\<close> returned stays open. On the
  loopback host \<^verbatim>\<open>listen_udp\<close> opens descriptor 3 and nothing ever closes it. The TCP
  connection and the TCP listener close theirs once, in their destructors.
\<close>

theorem UDPConnectionImpl_never_closed:
  "(\<forall>fd. Sys_close fd \<notin> set (snd (listen_udp os a) @ UDPConnectionImpl_destroy c)) \<and>
   (\<forall>fd. Sys_close fd \<notin> set (snd (dial_udp os a) @ UDPConnectionImpl_destroy c)) \<and>
   snd (listen_udp (loopback listener_heap) ''udp://127.0.0.1:5432'')
     @ UDPConnectionImpl_destroy \<lparr>udp_socket = 3, udp_local_addr = ''udp://127.0.0.1:22101'',
         udp_remote_addr = unknown_addr, udp_remotes = Map.empty\<rparr> =
     [Sys_getaddrinfo (Some ''127.0.0.1'') ''5432'' SOCK_DGRAM, Sys_socket AF_INET SOCK_DGRAM 0,
      Sys_bind 3 (loopback_at listener_heap 5432)]"
proof -
  have l: "Sys_close fd \<notin> set (snd (listen_udp os a) @ UDPConnectionImpl_destroy c)" for fd
    using resolve_events_no_close [of fd os a] UDPConnectionImpl_listening_no_close [of fd os]
    by (auto simp: listen_udp_def UDPConnectionImpl_destroy_def Let_def split_def
        split: outcome.splits)
  have d: "Sys_close fd \<notin> set (snd (dial_udp os a) @ UDPConnectionImpl_destroy c)" for fd
    using resolve_events_no_close [of fd os a] UDPConnectionImpl_dialing_no_close [of fd os]
    by (auto simp: dial_udp_def UDPConnectionImpl_destroy_def Let_def split_def
        split: outcome.splits)
  from l d show ?thesis
    by (simp add: listen_udp_sample UDPConnectionImpl_destroy_def)
qed

section \<open>UDP: reads and writes with no addressee\<close>

lemma UDPConnectionImpl_read_from_logic_error:
  assumes "fst (UDPConnectionImpl_read_from os c b remote t) = Returns (failed (logic_error msg), w)"
  shows "msg = ''UDPConnection::read: timeout whilst polling the socket'' \<and>
         fst (sys_poll os (udp_socket c) POLLIN (poll_timeout t)) = 0"
proof -
  obtain s sas where r: "sys_recvfrom os (udp_socket c) (length b) = (s, sas)"
    by (cases "sys_recvfrom os (udp_socket c) (length b)")
  show ?thesis
    using assms r netaddr_cases [of os sas]
    by (auto simp: UDPConnectionImpl_read_from_def Let_def split_def erred_def failed_def get_def
        Expected_exception_def Expected_value_def runtime_error_def logic_error_def
        split: if_splits)
qed

lemma UDPConnectionImpl_write_to_logic_error:
  assumes "fst (UDPConnectionImpl_write_to os c b remote t) = Returns (failed (logic_error msg))"
  shows "msg = ''UDPConnection::write: timeout whilst polling the socket''"
proof -
  obtain r c' e0 where u: "UDPConnectionImpl_resolve os c remote = (r, c', e0)"
    by (cases "UDPConnectionImpl_resolve os c remote")
  obtain result pollerr where p: "sys_poll os (udp_socket c) POLLOUT (poll_timeout t) = (result, pollerr)"
    by (cases "sys_poll os (udp_socket c) POLLOUT (poll_timeout t)")
  show ?thesis
    using assms u p
    by (auto simp: UDPConnectionImpl_write_to_def Let_def failed_def Expected_exception_def
        Expected_value_def runtime_error_def logic_error_def invalid_argument_def
        split: outcome.splits if_splits)
qed

text \<open>
  The guard of the read with no addressee fires on a connection that has a recorded
  peer: there the call is refused before anything is polled.
\<close>

lemma UDPConnectionImpl_read_on_dialing:
  assumes "udp_remote_addr c \<noteq> unknown_addr"
  shows "UDPConnectionImpl_read os c b t =
           (Returns (failed (logic_error
              ''UDPConnection::read: reading from a sending UDP connection without addressee'')),
            [])"
  using assms by (simp add: UDPConnectionImpl_read_def)

lemma UDPConnectionImpl_read_sample:
  "UDPConnectionImpl_read (loopback listener_heap)
     \<lparr>udp_socket = 3, udp_local_addr = ''udp://127.0.0.1:22101'',
      udp_remote_addr = unknown_addr, udp_remotes = Map.empty\<rparr> [0, 1, 2, 3] 1000 =
     (Returns (Expected_value 4), [Sys_poll 3 POLLIN 1000, Sys_recvfrom 3 4])"
  by (simp add: UDPConnectionImpl_read_def UDPConnectionImpl_read_from_def
      loopback_answers netaddr_loopback erred_Expected_value get_Expected_value)

text \<open>
  C2 as stated fails on a listening connection: \<^verbatim>\<open>listen_udp\<close> on the loopback host
  gives a connection whose remote address is the sentinel, and a read with no addressee
  on it polls, receives the four bytes and returns 4. It is no error of any kind.
\<close>

theorem unaddressed_read_on_listening_connection:
  "fst (listen_udp (loopback listener_heap) ''udp://127.0.0.1:5432'') =
     Returns \<lparr>udp_socket = 3, udp_local_addr = ''udp://127.0.0.1:22101'',
              udp_remote_addr = unknown_addr, udp_remotes = Map.empty\<rparr> \<and>
   UDPConnectionImpl_read (loopback listener_heap)
     \<lparr>udp_socket = 3, udp_local_addr = ''udp://127.0.0.1:22101'',
      udp_remote_addr = unknown_addr, udp_remotes = Map.empty\<rparr> [0, 1, 2, 3] 1000 =
     (Returns (Expected_value 4), [Sys_poll 3 POLLIN 1000, Sys_recvfrom 3 4]) \<and>
   \<not> erred (Expected_value (4::nat))"
  by (simp add: listen_udp_sample UDPConnectionImpl_read_sample erred_Expected_value)

text \<open>
  C2 as amended. A write with no addressee is valid exactly on a dialing connection: on
  a listening one (remote address \<^verbatim>\<open>?\<close>) it fails with a logic error and does nothing
  else, on a dialing one it is the addressed write to the recorded remote address, whose
  only logic error is the timeout of its poll. A read
  with no addressee on a listening connection is the remote-capturing read, started with
  an empty string and with the captured address dropped; the only logic error it can
  return is the timeout of that read's poll.
\<close>

theorem unaddressed_udp_calls:
  "(udp_remote_addr c = unknown_addr \<longrightarrow>
      UDPConnectionImpl_write os c b t =
        (Returns (failed (logic_error
           ''UDPConnection::write: writing to receiving UDP connection without addressee'')),
         c, [])) \<and>
   (udp_remote_addr c \<noteq> unknown_addr \<longrightarrow>
      UDPConnectionImpl_write os c b t =
        UDPConnectionImpl_write_to os c b (udp_remote_addr c) t \<and>
      (\<forall>msg. fst (UDPConnectionImpl_write os c b t) = Returns (failed (logic_error msg)) \<longrightarrow>
         msg = ''UDPConnection::write: timeout whilst polling the socket'')) \<and>
   (udp_remote_addr c = unknown_addr \<longrightarrow>
      UDPConnectionImpl_read os c b t =
        (outcome_bind (fst (UDPConnectionImpl_read_from os c b [] t)) (\<lambda>(n, whom). Returns n),
         snd (UDPConnectionImpl_read_from os c b [] t)) \<and>
      (\<forall>msg. fst (UDPConnectionImpl_read os c b t) = Returns (failed (logic_error msg)) \<longrightarrow>
         msg = ''UDPConnection::read: timeout whilst polling the socket'' \<and>
         fst (sys_poll os (udp_socket c) POLLIN (poll_timeout t)) = 0))"
proof -
  have w: "udp_remote_addr c = unknown_addr \<longrightarrow>
      UDPConnectionImpl_write os c b t =
        (Returns (failed (logic_error
           ''UDPConnection::write: writing to receiving UDP connection without addressee'')),
         c, [])"
    by (simp add: UDPConnectionImpl_write_def)
  have d: "UDPConnectionImpl_write os c b t =
        UDPConnectionImpl_write_to os c b (udp_remote_addr c) t"
    if "udp_remote_addr c \<noteq> unknown_addr"
    using that by (simp add: UDPConnectionImpl_write_def)
  have m: "msg = ''UDPConnection::write: timeout whilst polling the socket''"
    if "udp_remote_addr c \<noteq> unknown_addr"
      and "fst (UDPConnectionImpl_write os c b t) = Returns (failed (logic_error msg))" for msg
    using that d UDPConnectionImpl_write_to_logic_error [of os c b "udp_remote_addr c" t msg]
    by simp
  have r: "UDPConnectionImpl_read os c b t =
        (outcome_bind (fst (UDPConnectionImpl_read_from os c b [] t)) (\<lambda>(n, whom). Returns n),
         snd (UDPConnectionImpl_read_from os c b [] t))"
    if "udp_remote_addr c = unknown_addr"
    using that by (simp add: UDPConnectionImpl_read_def split_def Let_def)
  have l: "msg = ''UDPConnection::read: timeout whilst polling the socket'' \<and>
         fst (sys_poll os (udp_socket c) POLLIN (poll_timeout t)) = 0"
    if u: "udp_remote_addr c = unknown_addr"
      and f: "fst (UDPConnectionImpl_read os c b t) = Returns (failed (logic_error msg))" for msg
  proof -
    from f r [OF u] obtain w where
      "fst (UDPConnectionImpl_read_from os c b [] t) = Returns (failed (logic_error msg), w)"
      by (cases "fst (UDPConnectionImpl_read_from os c b [] t)") (auto simp: split_def)
    then show ?thesis by (rule UDPConnectionImpl_read_from_logic_error)
  qed
  from w d m r l show ?thesis by blast
qed

theorem unaddressed_udp_calls_witness:
  "UDPConnectionImpl_write (loopback listener_heap)
     \<lparr>udp_socket = 3, udp_local_addr = ''udp://127.0.0.1:22101'',
      udp_remote_addr = unknown_addr, udp_remotes = Map.empty\<rparr> [0, 1, 2, 3] 1000 =
     (Returns (failed (logic_error
        ''UDPConnection::write: writing to receiving UDP connection without addressee'')),
      \<lparr>udp_socket = 3, udp_local_addr = ''udp://127.0.0.1:22101'',
       udp_remote_addr = unknown_addr, udp_remotes = Map.empty\<rparr>, []) \<and>
   UDPConnectionImpl_write (loopback dialer_heap)
     \<lparr>udp_socket = 3, udp_local_addr = ''udp://127.0.0.1:14942'',
      udp_remote_addr = ''udp://127.0.0.1:5432'', udp_remotes = Map.empty\<rparr> [0, 1, 2, 3] 1000 =
     UDPConnectionImpl_write_to (loopback dialer_heap)
       \<lparr>udp_socket = 3, udp_local_addr = ''udp://127.0.0.1:14942'',
        udp_remote_addr = ''udp://127.0.0.1:5432'', udp_remotes = Map.empty\<rparr> [0, 1, 2, 3]
       ''udp://127.0.0.1:5432'' 1000 \<and>
   fst (UDPConnectionImpl_read (loopback listener_heap)
     \<lparr>udp_socket = 3, udp_local_addr = ''udp://127.0.0.1:22101'',
      udp_remote_addr = unknown_addr, udp_remotes = Map.empty\<rparr> [0, 1, 2, 3] 1000) =
     outcome_bind (fst (UDPConnectionImpl_read_from (loopback listener_heap)
       \<lparr>udp_socket = 3, udp_local_addr = ''udp://127.0.0.1:22101'',
        udp_remote_addr = unknown_addr, udp_remotes = Map.empty\<rparr> [0, 1, 2, 3] [] 1000))
       (\<lambda>(n, whom). Returns n)"
  using unaddressed_udp_calls [of
      "\<lparr>udp_socket = 3, udp_local_addr = ''udp://127.0.0.1:22101'',
        udp_remote_addr = unknown_addr, udp_remotes = Map.empty\<rparr>"
      "loopback listener_heap" "[0, 1, 2, 3]" 1000]
    unaddressed_udp_calls [of
      "\<lparr>udp_socket = 3, udp_local_addr = ''udp://127.0.0.1:14942'',
        udp_remote_addr = ''udp://127.0.0.1:5432'', udp_remotes = Map.empty\<rparr>"
      "loopback dialer_heap" "[0, 1, 2, 3]" 1000]
  by (simp add: unknown_addr_def)

section \<open>UDP: the peer cache\<close>

lemma UDPConnectionImpl_resolve_hit:
  assumes "udp_remotes c remote = Some a"
  shows "UDPConnectionImpl_resolve os c remote =
           (Returns (Expected_value a), c, [Mutex_lock, Remotes_find remote, Mutex_unlock])"
  using assms by (simp add: UDPConnectionImpl_resolve_def)

lemma UDPConnectionImpl_resolve_miss_failed:
  assumes "udp_remotes c remote = None" and "resolve os remote = (Returns r, e)" and "erred r"
  shows "UDPConnectionImpl_resolve os c remote =
           (Returns r, c, [Mutex_lock, Remotes_find remote, Mutex_unlock] @ e)"
proof -
  obtain msg where "r = failed (runtime_error msg)"
    using resolve_failure [OF assms(2,3)] by blast
  then show ?thesis
    using assms
    by (simp add: UDPConnectionImpl_resolve_def exception_def failed_def Expected_exception_def
        erred_def)
qed

lemma UDPConnectionImpl_resolve_miss_resolved:
  assumes "udp_remotes c remote = None" and "resolve os remote = (Returns r, e)" and "\<not> erred r"
  shows "\<exists>a. r = Expected_value a \<and>
           UDPConnectionImpl_resolve os c remote =
             (Returns (Expected_value a), c\<lparr>udp_remotes := (udp_remotes c)(remote \<mapsto> a)\<rparr>,
              [Mutex_lock, Remotes_find remote, Mutex_unlock] @ e
                @ [Mutex_lock, Remotes_store remote, Mutex_unlock])"
proof -
  obtain a where "r = Expected_value a"
    using resolve_success [OF assms(2,3)] by blast
  then show ?thesis
    using assms
    by (simp add: UDPConnectionImpl_resolve_def get_def Expected_value_def erred_def)
qed

lemma UDPConnectionImpl_resolve_miss_undefined:
  assumes "udp_remotes c remote = None" and "resolve os remote = (Undefined_behaviour, e)"
  shows "UDPConnectionImpl_resolve os c remote =
           (Undefined_behaviour, c, [Mutex_lock, Remotes_find remote, Mutex_unlock] @ e)"
  using assms by (simp add: UDPConnectionImpl_resolve_def)

lemma UDPConnectionImpl_resolve_shape:
  assumes "UDPConnectionImpl_resolve os c remote = (r, c', ev)"
  shows "take 3 ev = [Mutex_lock, Remotes_find remote, Mutex_unlock] \<and>
         udp_socket c' = udp_socket c \<and>
         (\<forall>k. k \<noteq> remote \<longrightarrow> udp_remotes c' k = udp_remotes c k) \<and>
         (\<forall>v. udp_remotes c remote = Some v \<longrightarrow> udp_remotes c' remote = Some v) \<and>
         (\<forall>v. udp_remotes c remote = None \<and> udp_remotes c' remote = Some v \<longrightarrow>
              (\<exists>e. resolve os remote = (Returns (Expected_value v), e)))"
proof (cases "udp_remotes c remote")
  case (Some a)
  then show ?thesis
    using assms by (auto simp: UDPConnectionImpl_resolve_hit)
next
  case None
  obtain r0 e where re: "resolve os remote = (r0, e)"
    by (cases "resolve os remote")
  show ?thesis
  proof (cases r0)
    case (Returns x)
    show ?thesis
    proof (cases "erred x")
      case True
      then show ?thesis
        using assms None re Returns UDPConnectionImpl_resolve_miss_failed [of c remote os x e]
        by auto
    next
      case False
      then show ?thesis
        using assms None re Returns UDPConnectionImpl_resolve_miss_resolved [of c remote os x e]
        by auto
    qed
  next
    case (Throws x)
    then show ?thesis
      using resolve_cases [of os remote] re by simp
  next
    case Undefined_behaviour
    then show ?thesis
      using assms None re UDPConnectionImpl_resolve_miss_undefined [of c remote os e] by auto
  qed
qed

lemma UDPConnectionImpl_write_to_shape:
  assumes "UDPConnectionImpl_write_to os c b remote t = (res, c', ev)"
  shows "\<exists>r e0. UDPConnectionImpl_resolve os c remote = (r, c', e0) \<and> take 3 ev = take 3 e0"
proof -
  obtain r c0 e0 where u: "UDPConnectionImpl_resolve os c remote = (r, c0, e0)"
    by (cases "UDPConnectionImpl_resolve os c remote")
  have 3: "take 3 e0 = [Mutex_lock, Remotes_find remote, Mutex_unlock]"
    using UDPConnectionImpl_resolve_shape [OF u] by simp
  then have "length (take 3 e0) = 3"
    by simp
  then have l: "3 \<le> length e0"
    by simp
  have "c' = c0 \<and> take 3 ev = take 3 e0"
    using assms u l
    by (auto simp: UDPConnectionImpl_write_to_def Let_def split_def
        split: outcome.splits if_splits)
  then show ?thesis using u by blast
qed

lemma UDPConnectionImpl_write_resolved_events:
  "snd (UDPConnectionImpl_write_resolved os c b to t) =
     [Sys_poll (udp_socket c) POLLOUT (poll_timeout t)] \<or>
   snd (UDPConnectionImpl_write_resolved os c b to t) =
     [Sys_poll (udp_socket c) POLLOUT (poll_timeout t),
      Sys_sendto (udp_socket c) (length b) (ai_addr to)]"
  by (simp add: UDPConnectionImpl_write_resolved_def Let_def split_def)

lemma UDPConnectionImpl_write_to_resolved:
  assumes "UDPConnectionImpl_resolve os c remote = (Returns (Expected_value a), c', e0)"
  shows "UDPConnectionImpl_write_to os c b remote t =
           (Returns (fst (UDPConnectionImpl_write_resolved os c b a t)), c',
            e0 @ snd (UDPConnectionImpl_write_resolved os c b a t))"
  using assms
  by (simp add: UDPConnectionImpl_write_to_def UDPConnectionImpl_write_resolved_def
      erred_Expected_value get_Expected_value Let_def split_def)

lemma UDPConnectionImpl_write_to_unresolved:
  assumes "UDPConnectionImpl_resolve os c remote = (Returns r, c', e0)" and "erred r"
  shows "UDPConnectionImpl_write_to os c b remote t =
           (Returns (failed (invalid_argument
              (''UDPConnection::write: unable to resolve the given remote '' @ quoted remote))),
            c', e0)"
  using assms by (simp add: UDPConnectionImpl_write_to_def)

lemma UDPConnectionImpl_write_to_undefined:
  assumes "UDPConnectionImpl_resolve os c remote = (Undefined_behaviour, c', e0)"
  shows "UDPConnectionImpl_write_to os c b remote t = (Undefined_behaviour, c', e0)"
  using assms by (simp add: UDPConnectionImpl_write_to_def)

lemma UDPConnectionImpl_write_resolved_loopback:
  "UDPConnectionImpl_write_resolved (loopback h) c [0, 1, 2, 3] a 1000 =
     (Expected_value 4,
      [Sys_poll (udp_socket c) POLLOUT 1000, Sys_sendto (udp_socket c) 4 (ai_addr a)])"
  by (simp add: UDPConnectionImpl_write_resolved_def loopback_answers)

text \<open>
  C9. \<^verbatim>\<open>__resolve\<close> looks the literal remote string up in the map under the mutex. On
  a hit it returns the cached handle and does nothing else, and the addressed write goes
  straight on to its poll and sends to the cached address: the whole write is the lock,
  the lookup, the unlock, the poll and the \<^verbatim>\<open>sendto\<close>, with no name resolution. On a
  miss \<^verbatim>\<open>__resolve\<close> calls \<^verbatim>\<open>resolve\<close>. A failed resolution is returned with the
  map as it was, and the write ends there with an \<^verbatim>\<open>invalid_argument\<close> error. A
  successful one is stored under the remote string, again under the mutex, and the write
  polls and sends to it. After a write every entry the map had is still there, and an
  entry it did not have is the one for this remote, holding what \<^verbatim>\<open>resolve\<close>
  returned.
\<close>

theorem addressed_write_peer_cache:
  "(udp_remotes c remote = Some a \<longrightarrow>
      UDPConnectionImpl_resolve os c remote =
        (Returns (Expected_value a), c, [Mutex_lock, Remotes_find remote, Mutex_unlock]) \<and>
      UDPConnectionImpl_write_to os c b remote t =
        (Returns (fst (UDPConnectionImpl_write_resolved os c b a t)), c,
         [Mutex_lock, Remotes_find remote, Mutex_unlock]
           @ snd (UDPConnectionImpl_write_resolved os c b a t))) \<and>
   (udp_remotes c remote = None \<and> resolve os remote = (Returns r, e) \<and> erred r \<longrightarrow>
      UDPConnectionImpl_resolve os c remote =
        (Returns r, c, [Mutex_lock, Remotes_find remote, Mutex_unlock] @ e) \<and>
      UDPConnectionImpl_write_to os c b remote t =
        (Returns (failed (invalid_argument
           (''UDPConnection::write: unable to resolve the given remote '' @ quoted remote))),
         c, [Mutex_lock, Remotes_find remote, Mutex_unlock] @ e)) \<and>
   (udp_remotes c remote = None \<and> resolve os remote = (Returns r, e) \<and> \<not> erred r \<longrightarrow>
      (\<exists>v. r = Expected_value v \<and>
         UDPConnectionImpl_resolve os c remote =
           (Returns (Expected_value v), c\<lparr>udp_remotes := (udp_remotes c)(remote \<mapsto> v)\<rparr>,
            [Mutex_lock, Remotes_find remote, Mutex_unlock] @ e
              @ [Mutex_lock, Remotes_store remote, Mutex_unlock]) \<and>
         UDPConnectionImpl_write_to os c b remote t =
           (Returns (fst (UDPConnectionImpl_write_resolved os c b v t)),
            c\<lparr>udp_remotes := (udp_remotes c)(remote \<mapsto> v)\<rparr>,
            [Mutex_lock, Remotes_find remote, Mutex_unlock] @ e
              @ [Mutex_lock, Remotes_store remote, Mutex_unlock]
              @ snd (UDPConnectionImpl_write_resolved os c b v t)))) \<and>
   (udp_remotes c remote = None \<and> resolve os remote = (Undefined_behaviour, e) \<longrightarrow>
      UDPConnectionImpl_write_to os c b remote t =
        (Undefined_behaviour, c, [Mutex_lock, Remotes_find remote, Mutex_unlock] @ e)) \<and>
   (snd (UDPConnectionImpl_write_resolved os c b a t) =
      [Sys_poll (udp_socket c) POLLOUT (poll_timeout t)] \<or>
    snd (UDPConnectionImpl_write_resolved os c b a t) =
      [Sys_poll (udp_socket c) POLLOUT (poll_timeout t),
       Sys_sendto (udp_socket c) (length b) (ai_addr a)]) \<and>
   (UDPConnectionImpl_write_to os c b remote t = (res, c', ev) \<longrightarrow>
      (\<forall>k v. udp_remotes c k = Some v \<longrightarrow> udp_remotes c' k = Some v) \<and>
      (\<forall>k v. udp_remotes c k = None \<and> udp_remotes c' k = Some v \<longrightarrow>
         k = remote \<and> (\<exists>e1. resolve os remote = (Returns (Expected_value v), e1))))"
proof -
  have hit: "udp_remotes c remote = Some a \<longrightarrow>
      UDPConnectionImpl_resolve os c remote =
        (Returns (Expected_value a), c, [Mutex_lock, Remotes_find remote, Mutex_unlock]) \<and>
      UDPConnectionImpl_write_to os c b remote t =
        (Returns (fst (UDPConnectionImpl_write_resolved os c b a t)), c,
         [Mutex_lock, Remotes_find remote, Mutex_unlock]
           @ snd (UDPConnectionImpl_write_resolved os c b a t))"
    using UDPConnectionImpl_resolve_hit [of c remote a os]
      UDPConnectionImpl_write_to_resolved [of os c remote a c
        "[Mutex_lock, Remotes_find remote, Mutex_unlock]" b t]
    by blast
  have unresolved:
    "udp_remotes c remote = None \<and> resolve os remote = (Returns r, e) \<and> erred r \<longrightarrow>
      UDPConnectionImpl_resolve os c remote =
        (Returns r, c, [Mutex_lock, Remotes_find remote, Mutex_unlock] @ e) \<and>
      UDPConnectionImpl_write_to os c b remote t =
        (Returns (failed (invalid_argument
           (''UDPConnection::write: unable to resolve the given remote '' @ quoted remote))),
         c, [Mutex_lock, Remotes_find remote, Mutex_unlock] @ e)"
    using UDPConnectionImpl_resolve_miss_failed [of c remote os r e]
      UDPConnectionImpl_write_to_unresolved [of os c remote r c
        "[Mutex_lock, Remotes_find remote, Mutex_unlock] @ e" b t]
    by blast
  have resolved:
    "\<exists>v. r = Expected_value v \<and>
         UDPConnectionImpl_resolve os c remote =
           (Returns (Expected_value v), c\<lparr>udp_remotes := (udp_remotes c)(remote \<mapsto> v)\<rparr>,
            [Mutex_lock, Remotes_find remote, Mutex_unlock] @ e
              @ [Mutex_lock, Remotes_store remote, Mutex_unlock]) \<and>
         UDPConnectionImpl_write_to os c b remote t =
           (Returns (fst (UDPConnectionImpl_write_resolved os c b v t)),
            c\<lparr>udp_remotes := (udp_remotes c)(remote \<mapsto> v)\<rparr>,
            [Mutex_lock, Remotes_find remote, Mutex_unlock] @ e
              @ [Mutex_lock, Remotes_store remote, Mutex_unlock]
              @ snd (UDPConnectionImpl_write_resolved os c b v t))"
    if h: "udp_remotes c remote = None \<and> resolve os remote = (Returns r, e) \<and> \<not> erred r"
  proof -
    from h obtain v where v: "r = Expected_value v"
      and u: "UDPConnectionImpl_resolve os c remote =
           (Returns (Expected_value v), c\<lparr>udp_remotes := (udp_remotes c)(remote \<mapsto> v)\<rparr>,
            [Mutex_lock, Remotes_find remote, Mutex_unlock] @ e
              @ [Mutex_lock, Remotes_store remote, Mutex_unlock])"
      using UDPConnectionImpl_resolve_miss_resolved [of c remote os r e] by blast
    have "UDPConnectionImpl_write_to os c b remote t =
           (Returns (fst (UDPConnectionImpl_write_resolved os c b v t)),
            c\<lparr>udp_remotes := (udp_remotes c)(remote \<mapsto> v)\<rparr>,
            ([Mutex_lock, Remotes_find remote, Mutex_unlock] @ e
              @ [Mutex_lock, Remotes_store remote, Mutex_unlock])
              @ snd (UDPConnectionImpl_write_resolved os c b v t))"
      using u by (rule UDPConnectionImpl_write_to_resolved)
    with v u show ?thesis by (intro exI [of _ v]) simp
  qed
  have undefined:
    "udp_remotes c remote = None \<and> resolve os remote = (Undefined_behaviour, e) \<longrightarrow>
      UDPConnectionImpl_write_to os c b remote t =
        (Undefined_behaviour, c, [Mutex_lock, Remotes_find remote, Mutex_unlock] @ e)"
    using UDPConnectionImpl_resolve_miss_undefined [of c remote os e]
      UDPConnectionImpl_write_to_undefined [of os c remote c
        "[Mutex_lock, Remotes_find remote, Mutex_unlock] @ e" b t]
    by blast
  note sent = UDPConnectionImpl_write_resolved_events [of os c b a t]
  have kept_all: "(\<forall>k v. udp_remotes c k = Some v \<longrightarrow> udp_remotes c' k = Some v) \<and>
      (\<forall>k v. udp_remotes c k = None \<and> udp_remotes c' k = Some v \<longrightarrow>
         k = remote \<and> (\<exists>e1. resolve os remote = (Returns (Expected_value v), e1)))"
    if w: "UDPConnectionImpl_write_to os c b remote t = (res, c', ev)"
  proof -
    obtain r0 e0 where u: "UDPConnectionImpl_resolve os c remote = (r0, c', e0)"
      using UDPConnectionImpl_write_to_shape [OF w] by blast
    note s = UDPConnectionImpl_resolve_shape [OF u]
    have kept: "udp_remotes c' k = Some v" if "udp_remotes c k = Some v" for k v
      using s that by (cases "k = remote") auto
    have new: "k = remote \<and> (\<exists>e1. resolve os remote = (Returns (Expected_value v), e1))"
      if "udp_remotes c k = None \<and> udp_remotes c' k = Some v" for k v
      using s that by (cases "k = remote") auto
    have "\<forall>k v. udp_remotes c k = Some v \<longrightarrow> udp_remotes c' k = Some v"
      using kept by blast
    moreover have "\<forall>k v. udp_remotes c k = None \<and> udp_remotes c' k = Some v \<longrightarrow>
         k = remote \<and> (\<exists>e1. resolve os remote = (Returns (Expected_value v), e1))"
      using new by blast
    ultimately show ?thesis by (intro conjI)
  qed
  have miss_resolved:
    "udp_remotes c remote = None \<and> resolve os remote = (Returns r, e) \<and> \<not> erred r \<longrightarrow>
      (\<exists>v. r = Expected_value v \<and>
         UDPConnectionImpl_resolve os c remote =
           (Returns (Expected_value v), c\<lparr>udp_remotes := (udp_remotes c)(remote \<mapsto> v)\<rparr>,
            [Mutex_lock, Remotes_find remote, Mutex_unlock] @ e
              @ [Mutex_lock, Remotes_store remote, Mutex_unlock]) \<and>
         UDPConnectionImpl_write_to os c b remote t =
           (Returns (fst (UDPConnectionImpl_write_resolved os c b v t)),
            c\<lparr>udp_remotes := (udp_remotes c)(remote \<mapsto> v)\<rparr>,
            [Mutex_lock, Remotes_find remote, Mutex_unlock] @ e
              @ [Mutex_lock, Remotes_store remote, Mutex_unlock]
              @ snd (UDPConnectionImpl_write_resolved os c b v t)))"
    using resolved by (rule impI)
  have evict: "UDPConnectionImpl_write_to os c b remote t = (res, c', ev) \<longrightarrow>
      (\<forall>k v. udp_remotes c k = Some v \<longrightarrow> udp_remotes c' k = Some v) \<and>
      (\<forall>k v. udp_remotes c k = None \<and> udp_remotes c' k = Some v \<longrightarrow>
         k = remote \<and> (\<exists>e1. resolve os remote = (Returns (Expected_value v), e1)))"
    using kept_all by (rule impI)
  from hit unresolved miss_resolved undefined sent evict show ?thesis
    by (intro conjI)
qed

theorem addressed_write_peer_cache_witness:
  "UDPConnectionImpl_write_to (loopback listener_heap)
     \<lparr>udp_socket = 3, udp_local_addr = ''udp://127.0.0.1:22101'', udp_remote_addr = unknown_addr,
      udp_remotes = [''udp://127.0.0.1:5432'' \<mapsto> resolved_at SOCK_DGRAM dialer_heap]\<rparr>
     [0, 1, 2, 3] ''udp://127.0.0.1:5432'' 1000 =
     (Returns (Expected_value 4),
      \<lparr>udp_socket = 3, udp_local_addr = ''udp://127.0.0.1:22101'', udp_remote_addr = unknown_addr,
       udp_remotes = [''udp://127.0.0.1:5432'' \<mapsto> resolved_at SOCK_DGRAM dialer_heap]\<rparr>,
      [Mutex_lock, Remotes_find ''udp://127.0.0.1:5432'', Mutex_unlock,
       Sys_poll 3 POLLOUT 1000, Sys_sendto 3 4 (loopback_at dialer_heap 5432)]) \<and>
   UDPConnectionImpl_write_to (unresolving listener_heap)
     \<lparr>udp_socket = 3, udp_local_addr = ''udp://127.0.0.1:22101'', udp_remote_addr = unknown_addr,
      udp_remotes = Map.empty\<rparr> [0, 1, 2, 3] ''udp://127.0.0.1:5432'' 1000 =
     (Returns (failed (invalid_argument
        (''UDPConnection::write: unable to resolve the given remote ''
         @ quoted ''udp://127.0.0.1:5432''))),
      \<lparr>udp_socket = 3, udp_local_addr = ''udp://127.0.0.1:22101'', udp_remote_addr = unknown_addr,
       udp_remotes = Map.empty\<rparr>,
      [Mutex_lock, Remotes_find ''udp://127.0.0.1:5432'', Mutex_unlock,
       Sys_getaddrinfo (Some ''127.0.0.1'') ''5432'' SOCK_DGRAM]) \<and>
   UDPConnectionImpl_write_to (loopback listener_heap)
     \<lparr>udp_socket = 3, udp_local_addr = ''udp://127.0.0.1:22101'', udp_remote_addr = unknown_addr,
      udp_remotes = Map.empty\<rparr> [0, 1, 2, 3] ''udp://127.0.0.1:5432'' 1000 =
     (Returns (Expected_value 4),
      \<lparr>udp_socket = 3, udp_local_addr = ''udp://127.0.0.1:22101'', udp_remote_addr = unknown_addr,
       udp_remotes = [''udp://127.0.0.1:5432'' \<mapsto> resolved_at SOCK_DGRAM listener_heap]\<rparr>,
      [Mutex_lock, Remotes_find ''udp://127.0.0.1:5432'', Mutex_unlock,
       Sys_getaddrinfo (Some ''127.0.0.1'') ''5432'' SOCK_DGRAM,
       Mutex_lock, Remotes_store ''udp://127.0.0.1:5432'', Mutex_unlock,
       Sys_poll 3 POLLOUT 1000, Sys_sendto 3 4 (loopback_at listener_heap 5432)]) \<and>
   resolve (loopback listener_heap) ''localhost:5432'' = (Undefined_behaviour, []) \<and>
   UDPConnectionImpl_write_to (loopback listener_heap)
     \<lparr>udp_socket = 3, udp_local_addr = ''udp://127.0.0.1:22101'', udp_remote_addr = unknown_addr,
      udp_remotes = Map.empty\<rparr> [0, 1, 2, 3] ''localhost:5432'' 1000 =
     (Undefined_behaviour,
      \<lparr>udp_socket = 3, udp_local_addr = ''udp://127.0.0.1:22101'', udp_remote_addr = unknown_addr,
       udp_remotes = Map.empty\<rparr>,
      [Mutex_lock, Remotes_find ''localhost:5432'', Mutex_unlock])"
proof -
  let ?R = "''udp://127.0.0.1:5432''"
  let ?C0 = "\<lparr>udp_socket = 3, udp_local_addr = ''udp://127.0.0.1:22101'',
      udp_remote_addr = unknown_addr, udp_remotes = Map.empty\<rparr>"
  let ?C1 = "\<lparr>udp_socket = 3, udp_local_addr = ''udp://127.0.0.1:22101'',
      udp_remote_addr = unknown_addr,
      udp_remotes = [?R \<mapsto> resolved_at SOCK_DGRAM dialer_heap]\<rparr>"
  let ?G = "[Sys_getaddrinfo (Some ''127.0.0.1'') ''5432'' SOCK_DGRAM]"
  let ?F = "failed (runtime_error (''resolve: trying to resolve ''
           @ quoted ''udp://127.0.0.1:5432'' @ '' but failed - Name or service not known''))
         :: addrinfo Expected"
  have h1: "udp_remotes ?C1 ?R = Some (resolved_at SOCK_DGRAM dialer_heap)"
    by simp
  have "UDPConnectionImpl_write_to (loopback listener_heap) ?C1 [0, 1, 2, 3] ?R 1000 =
      (Returns (fst (UDPConnectionImpl_write_resolved (loopback listener_heap) ?C1 [0, 1, 2, 3]
                  (resolved_at SOCK_DGRAM dialer_heap) 1000)), ?C1,
       [Mutex_lock, Remotes_find ?R, Mutex_unlock]
         @ snd (UDPConnectionImpl_write_resolved (loopback listener_heap) ?C1 [0, 1, 2, 3]
                  (resolved_at SOCK_DGRAM dialer_heap) 1000))"
    using h1 addressed_write_peer_cache [where c = ?C1 and remote = ?R
        and a = "resolved_at SOCK_DGRAM dialer_heap" and os = "loopback listener_heap"
        and b = "[0, 1, 2, 3]" and t = 1000]
    by blast
  then have w1: "UDPConnectionImpl_write_to (loopback listener_heap) ?C1 [0, 1, 2, 3] ?R 1000 =
      (Returns (Expected_value 4), ?C1,
       [Mutex_lock, Remotes_find ?R, Mutex_unlock,
        Sys_poll 3 POLLOUT 1000, Sys_sendto 3 4 (loopback_at dialer_heap 5432)])"
    by (simp add: UDPConnectionImpl_write_resolved_loopback resolved_at_def)
  have h2: "udp_remotes ?C0 ?R = None \<and>
      resolve (unresolving listener_heap) ?R = (Returns ?F, ?G) \<and> erred ?F"
    by (simp add: resolve_udp_unresolving erred_failed)
  have w2: "UDPConnectionImpl_write_to (unresolving listener_heap) ?C0 [0, 1, 2, 3] ?R 1000 =
      (Returns (failed (invalid_argument
         (''UDPConnection::write: unable to resolve the given remote '' @ quoted ?R))), ?C0,
       [Mutex_lock, Remotes_find ?R, Mutex_unlock] @ ?G)"
    using h2 addressed_write_peer_cache [where c = ?C0 and remote = ?R
        and os = "unresolving listener_heap" and e = ?G and r = ?F
        and b = "[0, 1, 2, 3]" and t = 1000]
    by blast
  have h3: "udp_remotes ?C0 ?R = None \<and>
      resolve (loopback listener_heap) ?R =
        (Returns (Expected_value (resolved_at SOCK_DGRAM listener_heap)), ?G) \<and>
      \<not> erred (Expected_value (resolved_at SOCK_DGRAM listener_heap))"
    by (simp add: resolve_udp_loopback erred_Expected_value)
  have "\<exists>v. Expected_value (resolved_at SOCK_DGRAM listener_heap) = Expected_value v \<and>
      UDPConnectionImpl_resolve (loopback listener_heap) ?C0 ?R =
        (Returns (Expected_value v), ?C0\<lparr>udp_remotes := (udp_remotes ?C0)(?R \<mapsto> v)\<rparr>,
         [Mutex_lock, Remotes_find ?R, Mutex_unlock] @ ?G
           @ [Mutex_lock, Remotes_store ?R, Mutex_unlock]) \<and>
      UDPConnectionImpl_write_to (loopback listener_heap) ?C0 [0, 1, 2, 3] ?R 1000 =
        (Returns (fst (UDPConnectionImpl_write_resolved (loopback listener_heap) ?C0
                    [0, 1, 2, 3] v 1000)),
         ?C0\<lparr>udp_remotes := (udp_remotes ?C0)(?R \<mapsto> v)\<rparr>,
         [Mutex_lock, Remotes_find ?R, Mutex_unlock] @ ?G
           @ [Mutex_lock, Remotes_store ?R, Mutex_unlock]
           @ snd (UDPConnectionImpl_write_resolved (loopback listener_heap) ?C0
                    [0, 1, 2, 3] v 1000))"
    using h3 addressed_write_peer_cache [where c = ?C0 and remote = ?R
        and os = "loopback listener_heap" and e = ?G
        and r = "Expected_value (resolved_at SOCK_DGRAM listener_heap)"
        and b = "[0, 1, 2, 3]" and t = 1000]
    by blast
  then have w3: "UDPConnectionImpl_write_to (loopback listener_heap) ?C0 [0, 1, 2, 3] ?R 1000 =
      (Returns (Expected_value 4),
       ?C0\<lparr>udp_remotes := (udp_remotes ?C0)(?R \<mapsto> resolved_at SOCK_DGRAM listener_heap)\<rparr>,
       [Mutex_lock, Remotes_find ?R, Mutex_unlock] @ ?G
         @ [Mutex_lock, Remotes_store ?R, Mutex_unlock]
         @ [Sys_poll 3 POLLOUT 1000, Sys_sendto 3 4 (loopback_at listener_heap 5432)])"
    by (auto simp: Expected_value_def UDPConnectionImpl_write_resolved_loopback resolved_at_def)
  have h4: "udp_remotes ?C0 ''localhost:5432'' = None \<and>
      resolve (loopback listener_heap) ''localhost:5432'' = (Undefined_behaviour, [])"
    by (simp add: resolve_def snip_def Snipper_new_def split_def)
  have w4: "UDPConnectionImpl_write_to (loopback listener_heap) ?C0 [0, 1, 2, 3]
      ''localhost:5432'' 1000 =
      (Undefined_behaviour, ?C0, [Mutex_lock, Remotes_find ''localhost:5432'', Mutex_unlock] @ [])"
    using h4 addressed_write_peer_cache [where c = ?C0 and remote = "''localhost:5432''"
        and os = "loopback listener_heap" and e = "[]"
        and b = "[0, 1, 2, 3]" and t = 1000]
    by blast
  from w1 w2 w3 h4 w4 show ?thesis
    by simp
qed

end
